theory Spec2Isabelle
  imports Main "HOL-Library.Multiset"
begin

section \<open>Python values shared by the cogs\<close>

text \<open>
  An exception instance of class \<open>Exception\<close>; the string is what \<open>str(e)\<close> gives.
  Every handler of the modelled code is \<open>except Exception\<close>.
\<close>

datatype exn = Exception string

fun exn_str :: "exn \<Rightarrow> string" where
  "exn_str (Exception msg) = msg"

text \<open>
  Truthiness of a Python \<open>str\<close> and of an \<open>Optional[str]\<close>: \<open>None\<close> and the empty
  string are both falsy.
\<close>

definition truthy_str :: "string \<Rightarrow> bool" where
  "truthy_str s = (s \<noteq> [])"

definition truthy_opt_str :: "string option \<Rightarrow> bool" where
  "truthy_opt_str v = (case v of None \<Rightarrow> False | Some s \<Rightarrow> truthy_str s)"

section \<open>The decoded payloads of the remote API\<close>

text \<open>An entry of a repository's event feed, with the keys the feed cog reads.\<close>

record event =
  event_id :: string
  event_type :: string
  actor_login :: string

text \<open>
  An entry of a user's repository list. \<open>stargazers_count\<close> is \<open>None\<close> when the key is
  absent: the aggregator reads it with \<open>repo.get("stargazers_count", 0)\<close>.
\<close>

record repo =
  repo_name :: string
  stargazers_count :: "int option"

text \<open>The body of a search response; \<open>total_count\<close> is read with \<open>data.get("total_count", 0)\<close>.\<close>

record search_result =
  total_count :: "int option"

text \<open>A user profile is a dictionary of fields; the empty list is the empty dictionary.\<close>

type_synonym profile = "(string \<times> string) list"

section \<open>The fetch client (utils/github\_api.py)\<close>

text \<open>
  \<open>GitHubAPI._make_request\<close> is the transport. The model takes its outcome per endpoint as
  a parameter: \<open>Inl e\<close> when an exception leaves it, \<open>Inr None\<close> when it returns
  \<open>None\<close> (status 403, any other non-200 status, retries exhausted) and \<open>Inr (Some d)\<close>
  for the decoded payload of a 200 response. The remote side is a world \<open>'w\<close> that every
  request may change, so two requests for the same resource may answer differently.
  \<open>clock\<close> is \<open>datetime.now()\<close> in seconds and \<open>isoformat\<close> is \<open>datetime.isoformat\<close>.
\<close>

record 'w github_api =
  request_user :: "string \<Rightarrow> 'w \<Rightarrow> (exn + profile option) \<times> 'w"
  request_repos :: "string \<Rightarrow> 'w \<Rightarrow> (exn + repo list option) \<times> 'w"
  request_search :: "string \<Rightarrow> 'w \<Rightarrow> (exn + search_result option) \<times> 'w"
  request_events :: "string \<Rightarrow> nat \<Rightarrow> 'w \<Rightarrow> (exn + event list option) \<times> 'w"
  clock :: "'w \<Rightarrow> int"
  isoformat :: "int \<Rightarrow> string"

text \<open>\<open>fetch_repo_events\<close>: \<open>return data or []\<close>.\<close>

definition fetch_repo_events ::
  "'w github_api \<Rightarrow> string \<Rightarrow> nat \<Rightarrow> 'w \<Rightarrow> (exn + event list) \<times> 'w" where
  "fetch_repo_events api repo per_page w =
     (case request_events api repo per_page w of
        (Inl e, w') \<Rightarrow> (Inl e, w')
      | (Inr data, w') \<Rightarrow> (Inr (case data of None \<Rightarrow> [] | Some d \<Rightarrow> d), w'))"

section \<open>Feed polling (cogs/github\_feed.py)\<close>

text \<open>
  What \<open>channel.send\<close> receives: the embed that \<open>create_event_embed\<close> builds from the
  repository name and the event. Its title is never empty, so \<open>if embed:\<close> always holds.
  The chat platform is outside the core: a message sent is a message delivered.
\<close>

datatype notification = Notification (note_repo: string) (note_event: event)

definition create_event_embed :: "string \<Rightarrow> event \<Rightarrow> notification" where
  "create_event_embed repo ev = Notification repo ev"

text \<open>
  The cog's state: the subscriber sets (a dictionary in insertion order), the watermarks
  \<open>last_event_ids\<close>, and the messages sent to the feed channel so far, oldest first.
\<close>

record feed_state =
  repo_subscribers :: "(string \<times> int set) list"
  last_event_ids :: "string \<rightharpoonup> string"
  channel_log :: "notification list"

definition subscribers :: "feed_state \<Rightarrow> string \<Rightarrow> int set" where
  "subscribers st repo = (case map_of (repo_subscribers st) repo of None \<Rightarrow> {} | Some s \<Rightarrow> s)"

text \<open>
  The loop \<open>for event in events: if last_event_id and event["id"] == last_event_id: break;
  new_events.append(event)\<close>, with \<open>new_events\<close> as the accumulator.
\<close>

fun collect_new_events :: "string option \<Rightarrow> event list \<Rightarrow> event list \<Rightarrow> event list" where
  "collect_new_events last_event_id [] new_events = new_events"
| "collect_new_events last_event_id (ev # rest) new_events =
     (if truthy_opt_str last_event_id \<and> Some (event_id ev) = last_event_id then new_events
      else collect_new_events last_event_id rest (new_events @ [ev]))"

text \<open>The loop \<open>for event in reversed(new_events)\<close>: build the embed and send it.\<close>

fun post_events :: "string \<Rightarrow> event list \<Rightarrow> feed_state \<Rightarrow> feed_state" where
  "post_events repo [] st = st"
| "post_events repo (ev # rest) st =
     post_events repo rest (st\<lparr>channel_log := channel_log st @ [create_event_embed repo ev]\<rparr>)"

text \<open>
  One iteration of \<open>for repo in list(self.repo_subscribers.keys())\<close>. A repository without
  subscribers is skipped; an exception of the fetch is caught and logged; an empty result
  is skipped; otherwise the new events are posted oldest first and the watermark becomes
  \<open>events[0]["id"]\<close>.
\<close>

definition poll_repo :: "'w github_api \<Rightarrow> string \<Rightarrow> feed_state \<times> 'w \<Rightarrow> feed_state \<times> 'w" where
  "poll_repo api repo sw =
     (case sw of (st, w) \<Rightarrow>
        if subscribers st repo = {} then (st, w)
        else (case fetch_repo_events api repo 5 w of
                (Inl e, w') \<Rightarrow> (st, w')
              | (Inr events, w') \<Rightarrow>
                  (case events of
                     [] \<Rightarrow> (st, w')
                   | newest # _ \<Rightarrow>
                       let new_events = collect_new_events (last_event_ids st repo) events [];
                           st' = post_events repo (rev new_events) st
                       in (st'\<lparr>last_event_ids := (last_event_ids st')(repo \<mapsto> event_id newest)\<rparr>, w'))))"

text \<open>
  \<open>feed_loop\<close>: nothing happens without a feed channel; otherwise every subscribed
  repository is polled in turn.
\<close>

definition feed_loop :: "'w github_api \<Rightarrow> bool \<Rightarrow> feed_state \<times> 'w \<Rightarrow> feed_state \<times> 'w" where
  "feed_loop api channel sw =
     (if \<not> channel then sw
      else fold (poll_repo api) (map fst (repo_subscribers (fst sw))) sw)"

section \<open>The stats aggregator (utils/github\_api.py)\<close>

text \<open>\<open>fetch_user_info\<close>: \<open>return data or {}\<close>.\<close>

definition fetch_user_info ::
  "'w github_api \<Rightarrow> string \<Rightarrow> 'w \<Rightarrow> (exn + profile) \<times> 'w" where
  "fetch_user_info api username w =
     (case request_user api username w of
        (Inl e, w') \<Rightarrow> (Inl e, w')
      | (Inr data, w') \<Rightarrow> (Inr (case data of None \<Rightarrow> [] | Some d \<Rightarrow> d), w'))"

text \<open>\<open>fetch_user_repos\<close>: one page of at most 100 repositories; \<open>return data or []\<close>.\<close>

definition fetch_user_repos ::
  "'w github_api \<Rightarrow> string \<Rightarrow> 'w \<Rightarrow> (exn + repo list) \<times> 'w" where
  "fetch_user_repos api username w =
     (case request_repos api username w of
        (Inl e, w') \<Rightarrow> (Inl e, w')
      | (Inr data, w') \<Rightarrow> (Inr (case data of None \<Rightarrow> [] | Some d \<Rightarrow> d), w'))"

text \<open>The search queries: \<open>if org:\<close> and \<open>if since:\<close> add their qualifiers.\<close>

definition merged_prs_query :: "'w github_api \<Rightarrow> string \<Rightarrow> string option \<Rightarrow> int option \<Rightarrow> string" where
  "merged_prs_query api username org since =
     ''author:'' @ username @ '' is:pr is:merged''
     @ (case org of None \<Rightarrow> [] | Some g \<Rightarrow> if truthy_str g then '' org:'' @ g else [])
     @ (case since of None \<Rightarrow> [] | Some t \<Rightarrow> '' merged:>'' @ isoformat api t)"

definition issues_opened_query :: "'w github_api \<Rightarrow> string \<Rightarrow> string option \<Rightarrow> int option \<Rightarrow> string" where
  "issues_opened_query api username org since =
     ''author:'' @ username @ '' is:issue''
     @ (case org of None \<Rightarrow> [] | Some g \<Rightarrow> if truthy_str g then '' org:'' @ g else [])
     @ (case since of None \<Rightarrow> [] | Some t \<Rightarrow> '' created:>'' @ isoformat api t)"

text \<open>\<open>data.get("total_count", 0) if data else 0\<close>.\<close>

definition search_total :: "search_result option \<Rightarrow> int" where
  "search_total data =
     (case data of None \<Rightarrow> 0 | Some d \<Rightarrow> (case total_count d of None \<Rightarrow> 0 | Some n \<Rightarrow> n))"

definition fetch_user_merged_prs ::
  "'w github_api \<Rightarrow> string \<Rightarrow> string option \<Rightarrow> int option \<Rightarrow> 'w \<Rightarrow> (exn + int) \<times> 'w" where
  "fetch_user_merged_prs api username org since w =
     (case request_search api (merged_prs_query api username org since) w of
        (Inl e, w') \<Rightarrow> (Inl e, w')
      | (Inr data, w') \<Rightarrow> (Inr (search_total data), w'))"

definition fetch_user_issues_opened ::
  "'w github_api \<Rightarrow> string \<Rightarrow> string option \<Rightarrow> int option \<Rightarrow> 'w \<Rightarrow> (exn + int) \<times> 'w" where
  "fetch_user_issues_opened api username org since w =
     (case request_search api (issues_opened_query api username org since) w of
        (Inl e, w') \<Rightarrow> (Inl e, w')
      | (Inr data, w') \<Rightarrow> (Inr (search_total data), w'))"

text \<open>
  The dictionary \<open>fetch_user_stats\<close> returns has one of two shapes: the full record, or
  \<open>{"username": ..., "error": ...}\<close>.
\<close>

record stats_record =
  username :: string
  user_info :: profile
  total_stars :: int
  total_repos :: int
  merged_prs :: int
  issues_opened :: int
  repositories :: "repo list"
  updated_at :: string

datatype stats = Stats stats_record | StatsError (error_username: string) (error_message: string)

text \<open>\<open>stats["username"]\<close>, \<open>stats.get("total_stars", 0)\<close> and \<open>stats.get("total_repos", 0)\<close>.\<close>

fun stats_username :: "stats \<Rightarrow> string" where
  "stats_username (Stats r) = username r"
| "stats_username (StatsError u msg) = u"

fun get_total_stars :: "stats \<Rightarrow> int" where
  "get_total_stars (Stats r) = total_stars r"
| "get_total_stars (StatsError u msg) = 0"

fun get_total_repos :: "stats \<Rightarrow> int" where
  "get_total_repos (Stats r) = total_repos r"
| "get_total_repos (StatsError u msg) = 0"

text \<open>\<open>repo.get("stargazers_count", 0)\<close>.\<close>

definition star_count :: "repo \<Rightarrow> int" where
  "star_count r = (case stargazers_count r of None \<Rightarrow> 0 | Some n \<Rightarrow> n)"

text \<open>
  The body of the \<open>try\<close> block of \<open>fetch_user_stats\<close>: \<open>Inl e\<close> is an exception that
  leaves the block. \<open>since_year\<close> is computed before the block.
\<close>

definition fetch_user_stats_try ::
  "'w github_api \<Rightarrow> string \<Rightarrow> string option \<Rightarrow> 'w \<Rightarrow> (exn + stats) \<times> 'w" where
  "fetch_user_stats_try api uname org w =
     (let since_year = clock api w - 365 * 86400 in
      case fetch_user_info api uname w of
        (Inl e, w1) \<Rightarrow> (Inl e, w1)
      | (Inr info, w1) \<Rightarrow>
          if info = [] then (Inr (StatsError uname ''User not found''), w1)
          else (case fetch_user_repos api uname w1 of
                  (Inl e, w2) \<Rightarrow> (Inl e, w2)
                | (Inr repos, w2) \<Rightarrow>
                    let stars = sum_list (map star_count repos) in
                    (case fetch_user_merged_prs api uname org (Some since_year) w2 of
                       (Inl e, w3) \<Rightarrow> (Inl e, w3)
                     | (Inr prs, w3) \<Rightarrow>
                         (case fetch_user_issues_opened api uname org (Some since_year) w3 of
                            (Inl e, w4) \<Rightarrow> (Inl e, w4)
                          | (Inr issues, w4) \<Rightarrow>
                              (Inr (Stats \<lparr>username = uname, user_info = info,
                                           total_stars = stars, total_repos = int (length repos),
                                           merged_prs = prs, issues_opened = issues,
                                           repositories = repos,
                                           updated_at = isoformat api (clock api w4)\<rparr>), w4)))))"

text \<open>
  \<open>fetch_user_stats\<close>: the handler \<open>except Exception as e\<close> turns an exception of the
  block into \<open>{"username": username, "error": str(e)}\<close>.
\<close>

definition fetch_user_stats ::
  "'w github_api \<Rightarrow> string \<Rightarrow> string option \<Rightarrow> 'w \<Rightarrow> (exn + stats) \<times> 'w" where
  "fetch_user_stats api uname org w =
     (case fetch_user_stats_try api uname org w of
        (Inl e, w') \<Rightarrow> (Inr (StatsError uname (exn_str e)), w')
      | (Inr r, w') \<Rightarrow> (Inr r, w'))"

section \<open>Gathering and ranking (cogs/roles.py, cogs/github\_leaderboard.py)\<close>

text \<open>An entry \<open>(discord_id, github_username, stats)\<close> of \<open>user_stats\<close>.\<close>

type_synonym user_stat = "int \<times> string \<times> stats"

definition stat_id :: "user_stat \<Rightarrow> int" where
  "stat_id x = fst x"

definition stat_stars :: "user_stat \<Rightarrow> int" where
  "stat_stars x = get_total_stars (snd (snd x))"

text \<open>
  \<open>for discord_id, github_username in links.items(): try: stats = await
  api.fetch_user_stats(github_username); user_stats.append(...) except Exception: print\<close>.
  The links are the dictionary of \<open>load_links\<close> in insertion order.
\<close>

fun fetch_all_user_stats ::
  "'w github_api \<Rightarrow> (int \<times> string) list \<Rightarrow> user_stat list \<Rightarrow> 'w \<Rightarrow> user_stat list \<times> 'w" where
  "fetch_all_user_stats api [] user_stats w = (user_stats, w)"
| "fetch_all_user_stats api ((discord_id, github_username) # links) user_stats w =
     (case fetch_user_stats api github_username None w of
        (Inl e, w') \<Rightarrow> fetch_all_user_stats api links user_stats w'
      | (Inr stats, w') \<Rightarrow>
          fetch_all_user_stats api links (user_stats @ [(discord_id, github_username, stats)]) w')"

text \<open>
  \<open>user_stats.sort(key=lambda x: x[2].get("total_stars", 0), reverse=True)\<close>.
  Python's \<open>list.sort\<close> is stable, and with \<open>reverse=True\<close> it reverses the list, sorts
  it stably in ascending order and reverses the result.
\<close>

definition sort_by_total_stars :: "user_stat list \<Rightarrow> user_stat list" where
  "sort_by_total_stars user_stats = rev (sort_key stat_stars (rev user_stats))"

section \<open>The guild and role reconciliation (cogs/roles.py)\<close>

record member =
  member_id :: int
  display_name :: string
  member_roles :: "string set"

text \<open>A guild: the names of its roles and its members (member ids are unique).\<close>

record guild =
  guild_roles :: "string list"
  guild_members :: "member list"

text \<open>The requests sent to the chat platform, in order.\<close>

datatype role_action = CreateRole string | RemoveRoles int string | AddRoles int string

type_synonym guild_state = "guild \<times> role_action list"

definition get_member :: "guild \<Rightarrow> int \<Rightarrow> member option" where
  "get_member g discord_id = find (\<lambda>m. member_id m = discord_id) (guild_members g)"

definition remove_roles :: "int \<Rightarrow> string \<Rightarrow> guild_state \<Rightarrow> guild_state" where
  "remove_roles mid role s =
     (case s of (g, log) \<Rightarrow>
        (g\<lparr>guild_members :=
             map (\<lambda>m. if member_id m = mid then m\<lparr>member_roles := member_roles m - {role}\<rparr> else m)
                 (guild_members g)\<rparr>,
         log @ [RemoveRoles mid role]))"

definition add_roles :: "int \<Rightarrow> string \<Rightarrow> guild_state \<Rightarrow> guild_state" where
  "add_roles mid role s =
     (case s of (g, log) \<Rightarrow>
        (g\<lparr>guild_members :=
             map (\<lambda>m. if member_id m = mid then m\<lparr>member_roles := insert role (member_roles m)\<rparr> else m)
                 (guild_members g)\<rparr>,
         log @ [AddRoles mid role]))"

text \<open>\<open>discord.utils.get(guild.roles, name=...)\<close>, and \<open>guild.create_role\<close> when it finds none.\<close>

definition get_or_create_role :: "string \<Rightarrow> guild_state \<Rightarrow> guild_state" where
  "get_or_create_role name s =
     (case s of (g, log) \<Rightarrow>
        if name \<in> set (guild_roles g) then (g, log)
        else (g\<lparr>guild_roles := guild_roles g @ [name]\<rparr>, log @ [CreateRole name]))"

text \<open>
  \<open>for member in guild.members: if top_role in member.roles: await
  member.remove_roles(top_role)\<close>, over the member list as it is when the loop starts.
\<close>

fun remove_role_from_all :: "string \<Rightarrow> member list \<Rightarrow> guild_state \<Rightarrow> guild_state" where
  "remove_role_from_all role [] s = s"
| "remove_role_from_all role (m # ms) s =
     remove_role_from_all role ms
       (if role \<in> member_roles m then remove_roles (member_id m) role s else s)"

text \<open>
  \<open>for i, (discord_id, github_username, stats) in enumerate(user_stats[:3]): member =
  guild.get_member(discord_id); if member: await member.add_roles(top_role)\<close>; the caller
  passes the prefix.
\<close>

fun add_role_to_each :: "string \<Rightarrow> user_stat list \<Rightarrow> guild_state \<Rightarrow> guild_state" where
  "add_role_to_each role [] s = s"
| "add_role_to_each role (x # rest) s =
     add_role_to_each role rest
       (case get_member (fst s) (stat_id x) of
          None \<Rightarrow> s
        | Some m \<Rightarrow> add_roles (member_id m) role s)"

definition top_role_name :: string where
  "top_role_name = ''GitHub Top 3''"

definition os_role_name :: string where
  "os_role_name = ''Open Source Contributor''"

definition assign_top_contributor_roles :: "user_stat list \<Rightarrow> guild_state \<Rightarrow> guild_state" where
  "assign_top_contributor_roles user_stats s =
     (let s1 = get_or_create_role top_role_name s;
          s2 = remove_role_from_all top_role_name (guild_members (fst s1)) s1
      in add_role_to_each top_role_name (take 3 user_stats) s2)"

text \<open>The threshold of the contributor role: \<open>stars >= 50 or repos >= 5\<close>.\<close>

definition meets_criteria :: "stats \<Rightarrow> bool" where
  "meets_criteria st = (get_total_stars st \<ge> 50 \<or> get_total_repos st \<ge> 5)"

fun open_source_loop :: "string \<Rightarrow> user_stat list \<Rightarrow> guild_state \<Rightarrow> guild_state" where
  "open_source_loop role [] s = s"
| "open_source_loop role (x # rest) s =
     open_source_loop role rest
       (case get_member (fst s) (stat_id x) of
          None \<Rightarrow> s
        | Some m \<Rightarrow>
            if meets_criteria (snd (snd x))
            then (if role \<notin> member_roles m then add_roles (member_id m) role s else s)
            else (if role \<in> member_roles m then remove_roles (member_id m) role s else s))"

definition assign_open_source_roles :: "user_stat list \<Rightarrow> guild_state \<Rightarrow> guild_state" where
  "assign_open_source_roles user_stats s =
     open_source_loop os_role_name user_stats (get_or_create_role os_role_name s)"

text \<open>
  The lines of a leaderboard: \<open>for i, (...) in enumerate(user_stats[:n], 1)\<close>, each with
  its rank, the member's display name (the GitHub name when the member is absent), the
  stars and the repositories.
\<close>

record leaderboard_line =
  line_rank :: nat
  line_name :: string
  line_stars :: int
  line_repos :: int

definition leaderboard_text :: "nat \<Rightarrow> guild option \<Rightarrow> user_stat list \<Rightarrow> leaderboard_line list" where
  "leaderboard_text n g user_stats =
     map (\<lambda>(i, (discord_id, github_username, st)).
            \<lparr>line_rank = i,
             line_name = (case (case g of None \<Rightarrow> None | Some g' \<Rightarrow> get_member g' discord_id) of
                            None \<Rightarrow> github_username
                          | Some m \<Rightarrow> display_name m),
             line_stars = get_total_stars st,
             line_repos = get_total_repos st\<rparr>)
         (List.enumerate 1 (take n user_stats))"

definition post_daily_leaderboard :: "guild \<Rightarrow> user_stat list \<Rightarrow> leaderboard_line list" where
  "post_daily_leaderboard g user_stats = leaderboard_text 10 (Some g) user_stats"

text \<open>
  The two role updates of \<open>update_github_roles\<close>, on the ranked list: first the top
  role, then the contributor role.
\<close>

definition reconcile_roles :: "user_stat list \<Rightarrow> guild_state \<Rightarrow> guild_state" where
  "reconcile_roles user_stats s =
     assign_open_source_roles user_stats (assign_top_contributor_roles user_stats s)"

text \<open>
  \<open>update_github_roles\<close>: without the guild nothing happens; otherwise the stats of all
  linked users are fetched, ranked, the roles are reconciled and the daily leaderboard is
  posted. The result is the guild, the requests sent, the lines posted and the remote world.
\<close>

definition update_github_roles ::
  "'w github_api \<Rightarrow> guild option \<Rightarrow> (int \<times> string) list \<Rightarrow> 'w \<Rightarrow>
   (guild_state \<times> leaderboard_line list) option \<times> 'w" where
  "update_github_roles api guild links w =
     (case guild of
        None \<Rightarrow> (None, w)
      | Some g \<Rightarrow>
          (case fetch_all_user_stats api links [] w of
             (user_stats, w') \<Rightarrow>
               let ranked = sort_by_total_stars user_stats;
                   s = reconcile_roles ranked (g, [])
               in (Some (s, post_daily_leaderboard (fst s) ranked), w')))"


definition monthly_leaderboard ::
  "guild option \<Rightarrow> user_stat list \<Rightarrow> (guild_state option \<times> leaderboard_line list) option" where
  "monthly_leaderboard guild user_stats =
     (if user_stats = [] then None
      else
        let ranked = sort_by_total_stars user_stats;
            s = (case guild of
                   None \<Rightarrow> None
                 | Some g \<Rightarrow>
                     let s1 = get_or_create_role top_role_name (g, []);
                         s2 = remove_role_from_all top_role_name (guild_members (fst s1)) s1
                     in Some (add_role_to_each top_role_name (take 3 ranked) s2))
        in Some (s, leaderboard_text 15 (map_option fst s) ranked))"

text \<open>Who holds a role, and the members a log removes a role from or adds it to.\<close>

definition has_role :: "guild \<Rightarrow> int \<Rightarrow> string \<Rightarrow> bool" where
  "has_role g discord_id role =
     (case get_member g discord_id of None \<Rightarrow> False | Some m \<Rightarrow> role \<in> member_roles m)"

definition holders :: "guild \<Rightarrow> string \<Rightarrow> int set" where
  "holders g role = set (map member_id (filter (\<lambda>m. role \<in> member_roles m) (guild_members g)))"

definition member_ids :: "guild \<Rightarrow> int set" where
  "member_ids g = set (map member_id (guild_members g))"

fun removed_from :: "string \<Rightarrow> role_action list \<Rightarrow> int list" where
  "removed_from role [] = []"
| "removed_from role (RemoveRoles mid r # log) =
     (if r = role then mid # removed_from role log else removed_from role log)"
| "removed_from role (a # log) = removed_from role log"

fun added_to :: "string \<Rightarrow> role_action list \<Rightarrow> int list" where
  "added_to role [] = []"
| "added_to role (AddRoles mid r # log) =
     (if r = role then mid # added_to role log else added_to role log)"
| "added_to role (a # log) = added_to role log"

section \<open>The guild a reconciliation leaves, member by member\<close>

text \<open>
  The functions below describe the result of the role loops without the loops: what
  becomes of the role list and of the role set of the member with a given id. The
  properties section proves that the loops compute them.
\<close>

definition strip_role :: "string \<Rightarrow> member \<Rightarrow> member" where
  "strip_role role m = m\<lparr>member_roles := member_roles m - {role}\<rparr>"

definition grant_role :: "string \<Rightarrow> member \<Rightarrow> member" where
  "grant_role role m = m\<lparr>member_roles := insert role (member_roles m)\<rparr>"

definition ensure_role :: "string \<Rightarrow> string list \<Rightarrow> string list" where
  "ensure_role name rs = (if name \<in> set rs then rs else rs @ [name])"

definition top_roles :: "string \<Rightarrow> user_stat list \<Rightarrow> int \<Rightarrow> string set \<Rightarrow> string set" where
  "top_roles role best i rs = (if i \<in> set (map stat_id best) then insert role (rs - {role}) else rs - {role})"

fun os_roles :: "string \<Rightarrow> user_stat list \<Rightarrow> int \<Rightarrow> string set \<Rightarrow> string set" where
  "os_roles role [] i rs = rs"
| "os_roles role (x # rest) i rs =
     os_roles role rest i
       (if stat_id x = i
        then (if meets_criteria (snd (snd x)) then insert role rs else rs - {role})
        else rs)"

definition reconciled :: "user_stat list \<Rightarrow> guild \<Rightarrow> guild" where
  "reconciled user_stats g =
     g\<lparr>guild_roles := ensure_role os_role_name (ensure_role top_role_name (guild_roles g)),
       guild_members :=
         map (\<lambda>m. m\<lparr>member_roles :=
                      os_roles os_role_name user_stats (member_id m)
                        (top_roles top_role_name (take 3 user_stats) (member_id m) (member_roles m))\<rparr>)
             (guild_members g)\<rparr>"


section \<open>Scenarios\<close>

text \<open>
  A remote side whose world is the number of requests it has served. It answers every
  request of an endpoint with the same outcome, but for the search endpoint, whose outcome
  depends on the number of requests served before.
\<close>

definition static_api ::
  "(exn + profile option) \<Rightarrow> (exn + repo list option) \<Rightarrow> (nat \<Rightarrow> exn + search_result option) \<Rightarrow>
   (exn + event list option) \<Rightarrow> nat github_api" where
  "static_api u r c e =
     \<lparr>request_user = (\<lambda>name w. (u, Suc w)),
      request_repos = (\<lambda>name w. (r, Suc w)),
      request_search = (\<lambda>q w. (c w, Suc w)),
      request_events = (\<lambda>name n w. (e, Suc w)),
      clock = (\<lambda>w. int w),
      isoformat = (\<lambda>t. ''t'')\<rparr>"

definition events_api :: "(exn + event list option) \<Rightarrow> nat github_api" where
  "events_api e = static_api (Inr None) (Inr None) (\<lambda>w. Inr None) e"

definition push_event :: "string \<Rightarrow> event" where
  "push_event i = \<lparr>event_id = i, event_type = ''PushEvent'', actor_login = ''octocat''\<rparr>"

text \<open>The repository octo/demo with one subscriber and the given watermark.\<close>

definition demo_feed :: "string option \<Rightarrow> feed_state" where
  "demo_feed wm =
     \<lparr>repo_subscribers = [(''octo/demo'', {1})],
      last_event_ids = (case wm of None \<Rightarrow> Map.empty | Some i \<Rightarrow> [''octo/demo'' \<mapsto> i]),
      channel_log = []\<rparr>"

definition demo_events :: "event list" where
  "demo_events = [push_event ''E105'', push_event ''E104'', push_event ''E100'', push_event ''E99'']"

text \<open>A profile, three repositories (one without a star count) and search counts.\<close>

definition octocat_profile :: profile where
  "octocat_profile = [(''login'', ''octocat'')]"


definition two_found :: "nat \<Rightarrow> exn + search_result option" where
  "two_found w = Inr (Some \<lparr>total_count = Some 2\<rparr>)"

definition second_search_fails :: "nat \<Rightarrow> exn + search_result option" where
  "second_search_fails w = (if w = 2 then Inr (Some \<lparr>total_count = Some 2\<rparr>) else Inl (Exception ''boom''))"


text \<open>Linked users with given stars and repository counts, and a guild of six members.\<close>

definition demo_stats :: "string \<Rightarrow> int \<Rightarrow> int \<Rightarrow> stats" where
  "demo_stats name stars repos =
     Stats \<lparr>username = name, user_info = [(''login'', name)], total_stars = stars,
            total_repos = repos, merged_prs = 0, issues_opened = 0, repositories = [],
            updated_at = ''t''\<rparr>"

definition user_A :: user_stat where
  "user_A = (1, ''A'', demo_stats ''A'' 10 1)"

definition user_B :: user_stat where
  "user_B = (2, ''B'', demo_stats ''B'' 50 1)"

definition user_C :: user_stat where
  "user_C = (3, ''C'', demo_stats ''C'' 50 1)"

definition user_D :: user_stat where
  "user_D = (4, ''D'', demo_stats ''D'' 0 5)"

definition user_E :: user_stat where
  "user_E = (5, ''E'', demo_stats ''E'' 49 4)"

definition user_ghost :: user_stat where
  "user_ghost = (6, ''ghost'', StatsError ''ghost'' ''User not found'')"

definition demo_guild :: guild where
  "demo_guild =
     \<lparr>guild_roles = [''GitHub Top 3'', ''Open Source Contributor''],
      guild_members =
        [\<lparr>member_id = 1, display_name = ''alice'', member_roles = {''GitHub Top 3''}\<rparr>,
         \<lparr>member_id = 2, display_name = ''bob'', member_roles = {}\<rparr>,
         \<lparr>member_id = 3, display_name = ''carol'', member_roles = {}\<rparr>,
         \<lparr>member_id = 4, display_name = ''dave'', member_roles = {}\<rparr>,
         \<lparr>member_id = 5, display_name = ''erin'', member_roles = {''Open Source Contributor''}\<rparr>,
         \<lparr>member_id = 6, display_name = ''frank'', member_roles = {''Open Source Contributor''}\<rparr>]\<rparr>"

definition lonely_guild :: guild where
  "lonely_guild =
     \<lparr>guild_roles = [],
      guild_members = [\<lparr>member_id = 6, display_name = ''frank'', member_roles = {}\<rparr>]\<rparr>"

text \<open>
  A remote side that knows every user, answers the repository request from a table and
  finds nothing in the searches; and the record \<open>fetch_user_stats\<close> builds from it.
\<close>

definition repos_api :: "(string \<Rightarrow> repo list) \<Rightarrow> nat github_api" where
  "repos_api table =
     \<lparr>request_user = (\<lambda>name w. (Inr (Some [(''login'', name)]), Suc w)),
      request_repos = (\<lambda>name w. (Inr (Some (table name)), Suc w)),
      request_search = (\<lambda>q w. (Inr None, Suc w)),
      request_events = (\<lambda>name n w. (Inr None, Suc w)),
      clock = (\<lambda>w. int w),
      isoformat = (\<lambda>t. ''t'')\<rparr>"

definition fetched_stats :: "string \<Rightarrow> repo list \<Rightarrow> stats" where
  "fetched_stats name repos =
     Stats \<lparr>username = name, user_info = [(''login'', name)],
            total_stars =
              sum_list (map (\<lambda>repo. case stargazers_count repo of None \<Rightarrow> 0 | Some n \<Rightarrow> n) repos),
            total_repos = int (length repos), merged_prs = 0, issues_opened = 0,
            repositories = repos, updated_at = ''t''\<rparr>"

definition repo_with :: "int \<Rightarrow> repo" where
  "repo_with n = \<lparr>repo_name = ''main'', stargazers_count = Some n\<rparr>"

definition demo_repos :: "string \<Rightarrow> repo list" where
  "demo_repos name =
     (if name = ''A'' then [repo_with 10]
      else if name = ''B'' then [repo_with 50]
      else if name = ''C'' then [repo_with 50]
      else if name = ''D'' then [repo_with 0, repo_with 0, repo_with 0, repo_with 0, repo_with 0]
      else if name = ''E'' then [repo_with 40, repo_with 9, repo_with 0, repo_with 0]
      else if name = ''F'' then [repo_with 60]
      else [])"

section \<open>Properties of feed polling\<close>

lemma collect_new_events_all:
  "\<not> truthy_opt_str last_event_id \<Longrightarrow> collect_new_events last_event_id evs acc = acc @ evs"
  by (induction evs arbitrary: acc) auto

lemma collect_new_events_no_match:
  "\<forall>e \<in> set evs. Some (event_id e) \<noteq> last_event_id \<Longrightarrow>
   collect_new_events last_event_id evs acc = acc @ evs"
  by (induction evs arbitrary: acc) auto

lemma collect_new_events_first:
  assumes "truthy_opt_str (Some W)" and "k < length evs" and "event_id (evs ! k) = W"
    and "\<forall>j<k. event_id (evs ! j) \<noteq> W"
  shows "collect_new_events (Some W) evs acc = acc @ take k evs"
  using assms
proof (induction evs arbitrary: acc k)
  case Nil
  then show ?case by simp
next
  case (Cons e evs)
  show ?case
  proof (cases k)
    case 0
    with Cons.prems show ?thesis by simp
  next
    case (Suc k')
    from Cons.prems Suc have ne: "event_id e \<noteq> W" by auto
    from Cons.prems Suc have k': "k' < length evs" "event_id (evs ! k') = W" by auto
    from Cons.prems Suc have first: "\<forall>j<k'. event_id (evs ! j) \<noteq> W" by auto
    from Cons.IH [OF Cons.prems(1) k' first, of "acc @ [e]"] ne Suc
    show ?thesis by simp
  qed
qed

lemma channel_log_post_events:
  "channel_log (post_events repo evs st) = channel_log st @ map (create_event_embed repo) evs"
  by (induction evs arbitrary: st) auto

lemma last_event_ids_post_events:
  "last_event_ids (post_events repo evs st) = last_event_ids st"
  by (induction evs arbitrary: st) auto

lemma repo_subscribers_post_events:
  "repo_subscribers (post_events repo evs st) = repo_subscribers st"
  by (induction evs arbitrary: st) auto

lemma poll_repo_fetched:
  assumes "subscribers st repo \<noteq> {}" and "fetch_repo_events api repo 5 w = (Inr events, w')"
    and "events \<noteq> []"
  shows "fst (poll_repo api repo (st, w)) =
           (post_events repo (rev (collect_new_events (last_event_ids st repo) events [])) st)
             \<lparr>last_event_ids := (last_event_ids st)(repo \<mapsto> event_id (events ! 0))\<rparr>"
  using assms
  by (cases events) (simp_all add: poll_repo_def Let_def last_event_ids_post_events)

lemma poll_repo_skipped:
  "subscribers st repo = {} \<Longrightarrow> poll_repo api repo (st, w) = (st, w)"
  by (simp add: poll_repo_def)

lemma poll_repo_failed:
  "fetch_repo_events api repo 5 w = (Inl e, w') \<Longrightarrow> fst (poll_repo api repo (st, w)) = st"
  by (simp add: poll_repo_def)

lemma poll_repo_empty:
  "fetch_repo_events api repo 5 w = (Inr [], w') \<Longrightarrow> fst (poll_repo api repo (st, w)) = st"
  by (simp add: poll_repo_def)

text \<open>
  C1 (as amended). A repository with subscribers has the stored watermark \<open>W\<close>, a non-empty
  string, and the poll fetches a newest-first list in which position \<open>k\<close> is the first
  whose event has the id \<open>W\<close>. Then the events the poll collects as new are exactly those
  at the positions \<open>[0, k)\<close>, and the poll sends their notifications, and no others, to
  the channel in oldest-first order.
\<close>

theorem poll_repo_reports_new_events:
  assumes "subscribers st repo \<noteq> {}"
    and "fetch_repo_events api repo 5 w = (Inr events, w')"
    and "last_event_ids st repo = Some W" and "W \<noteq> []"
    and "k < length events" and "event_id (events ! k) = W"
    and "\<forall>j<k. event_id (events ! j) \<noteq> W"
  shows "collect_new_events (last_event_ids st repo) events [] = take k events \<and>
         channel_log (fst (poll_repo api repo (st, w))) =
           channel_log st @ map (create_event_embed repo) (rev (take k events))"
proof -
  have t: "truthy_opt_str (Some W)"
    using assms(4) by (simp add: truthy_opt_str_def truthy_str_def)
  have new: "collect_new_events (last_event_ids st repo) events [] = take k events"
    using collect_new_events_first [OF t assms(5) assms(6) assms(7), of "[]"] assms(3) by simp
  from assms(5) have ne: "events \<noteq> []" by auto
  show ?thesis
    using new poll_repo_fetched [OF assms(1) assms(2) ne]
    by (simp add: channel_log_post_events)
qed

theorem poll_repo_reports_new_events_witness:
  "channel_log (fst (poll_repo (events_api (Inr (Some demo_events))) ''octo/demo''
      (demo_feed (Some ''E100''), 0))) =
   [Notification ''octo/demo'' (push_event ''E104''), Notification ''octo/demo'' (push_event ''E105'')]"
proof -
  have h1: "subscribers (demo_feed (Some ''E100'')) ''octo/demo'' \<noteq> {}"
    by (simp add: subscribers_def demo_feed_def)
  have h2: "fetch_repo_events (events_api (Inr (Some demo_events))) ''octo/demo'' 5 (0::nat) =
              (Inr demo_events, Suc 0)"
    by (simp add: fetch_repo_events_def events_api_def static_api_def)
  have h3: "last_event_ids (demo_feed (Some ''E100'')) ''octo/demo'' = Some ''E100''"
    by (simp add: demo_feed_def)
  have h4: "''E100'' \<noteq> []" by simp
  have h5: "2 < length demo_events" by (simp add: demo_events_def)
  have h6: "event_id (demo_events ! 2) = ''E100''"
    by (simp add: demo_events_def push_event_def)
  have h7: "\<forall>j<2. event_id (demo_events ! j) \<noteq> ''E100''"
    by (simp add: demo_events_def push_event_def less_Suc_eq numeral_2_eq_2)
  from poll_repo_reports_new_events [OF h1 h2 h3 h4 h5 h6 h7]
  show ?thesis
    by (simp add: demo_feed_def demo_events_def create_event_embed_def numeral_2_eq_2)
qed

text \<open>
  C1 as stated fails at two inputs. With the stored watermark \<open>""\<close> and a fetched list whose
  event at position 0 has the id \<open>""\<close>, the guard \<open>if last_event_id and ...\<close> is falsy, the
  boundary is never found and the event is sent, where the claim reports no event. With
  the watermark \<open>"E1"\<close> and two fetched events of that id, the event at position 1 has the
  id of the watermark, yet the event at position 0 is not sent.
\<close>

theorem poll_repo_reports_new_events_counterexample:
  "last_event_ids (demo_feed (Some '''')) ''octo/demo'' = Some '''' \<and>
   event_id ([push_event ''''] ! 0) = '''' \<and>
   channel_log (fst (poll_repo (events_api (Inr (Some [push_event '''']))) ''octo/demo''
      (demo_feed (Some ''''), 0))) \<noteq>
     channel_log (demo_feed (Some '''')) @
       map (create_event_embed ''octo/demo'') (rev (take 0 [push_event ''''])) \<and>
   last_event_ids (demo_feed (Some ''E1'')) ''octo/demo'' = Some ''E1'' \<and>
   event_id ([push_event ''E1'', push_event ''E1''] ! 1) = ''E1'' \<and>
   channel_log (fst (poll_repo (events_api (Inr (Some [push_event ''E1'', push_event ''E1''])))
      ''octo/demo'' (demo_feed (Some ''E1''), 0))) \<noteq>
     channel_log (demo_feed (Some ''E1'')) @
       map (create_event_embed ''octo/demo'') (rev (take 1 [push_event ''E1'', push_event ''E1'']))"
  by (simp add: poll_repo_def fetch_repo_events_def events_api_def static_api_def demo_feed_def
      subscribers_def push_event_def create_event_embed_def truthy_opt_str_def truthy_str_def)

lemma poll_repo_other_repos:
  "r \<noteq> repo \<Longrightarrow> last_event_ids (fst (poll_repo api repo (st, w))) r = last_event_ids st r"
  by (simp add: poll_repo_def Let_def last_event_ids_post_events
      split: prod.splits sum.splits list.splits)

lemma poll_repo_old_or_newest:
  "last_event_ids (fst (poll_repo api repo (st, w))) repo = last_event_ids st repo \<or>
   (\<exists>evs w'. fetch_repo_events api repo 5 w = (Inr evs, w') \<and> evs \<noteq> [] \<and>
      last_event_ids (fst (poll_repo api repo (st, w))) repo = Some (event_id (evs ! 0)))"
  by (simp add: poll_repo_def Let_def last_event_ids_post_events
      split: prod.splits sum.splits list.splits)

text \<open>
  C2 (as amended). After a poll of a subscribed repository whose fetch returns a non-empty
  list, the stored watermark of the repository is the id of the event at index 0 of that
  list, whatever the earlier watermark was and however many events were new. When the
  fetch raises or returns the empty list the watermarks are unchanged. A poll leaves the
  watermark as it was or sets it to the id at index 0 of the fetched list, it never clears
  a stored watermark, and it leaves the watermarks of all other repositories alone. The
  ids are not compared: nothing keeps the watermark from moving to an older event when the
  remote side answers with an older page.
\<close>

theorem poll_repo_watermark:
  "(subscribers st repo \<noteq> {} \<and> fetch_repo_events api repo 5 w = (Inr events, w') \<and> events \<noteq> [] \<longrightarrow>
      last_event_ids (fst (poll_repo api repo (st, w))) repo = Some (event_id (events ! 0))) \<and>
   (fetch_repo_events api repo 5 w = (Inl e, w') \<longrightarrow>
      last_event_ids (fst (poll_repo api repo (st, w))) = last_event_ids st) \<and>
   (fetch_repo_events api repo 5 w = (Inr [], w') \<longrightarrow>
      last_event_ids (fst (poll_repo api repo (st, w))) = last_event_ids st) \<and>
   (last_event_ids (fst (poll_repo api repo (st, w))) repo = last_event_ids st repo \<or>
      (\<exists>evs w''. fetch_repo_events api repo 5 w = (Inr evs, w'') \<and> evs \<noteq> [] \<and>
         last_event_ids (fst (poll_repo api repo (st, w))) repo = Some (event_id (evs ! 0)))) \<and>
   (last_event_ids st repo \<noteq> None \<longrightarrow>
      last_event_ids (fst (poll_repo api repo (st, w))) repo \<noteq> None) \<and>
   (\<forall>r. r \<noteq> repo \<longrightarrow> last_event_ids (fst (poll_repo api repo (st, w))) r = last_event_ids st r)"
proof (intro conjI impI allI)
  assume "subscribers st repo \<noteq> {} \<and> fetch_repo_events api repo 5 w = (Inr events, w') \<and> events \<noteq> []"
  then show "last_event_ids (fst (poll_repo api repo (st, w))) repo = Some (event_id (events ! 0))"
    using poll_repo_fetched [of st repo api w events w'] by simp
next
  assume "fetch_repo_events api repo 5 w = (Inl e, w')"
  then show "last_event_ids (fst (poll_repo api repo (st, w))) = last_event_ids st"
    by (simp add: poll_repo_failed)
next
  assume "fetch_repo_events api repo 5 w = (Inr [], w')"
  then show "last_event_ids (fst (poll_repo api repo (st, w))) = last_event_ids st"
    by (simp add: poll_repo_empty)
next
  show "last_event_ids (fst (poll_repo api repo (st, w))) repo = last_event_ids st repo \<or>
      (\<exists>evs w''. fetch_repo_events api repo 5 w = (Inr evs, w'') \<and> evs \<noteq> [] \<and>
         last_event_ids (fst (poll_repo api repo (st, w))) repo = Some (event_id (evs ! 0)))"
    by (rule poll_repo_old_or_newest)
next
  assume "last_event_ids st repo \<noteq> None"
  then show "last_event_ids (fst (poll_repo api repo (st, w))) repo \<noteq> None"
    using poll_repo_old_or_newest [of api repo st w] by auto
next
  fix r assume "r \<noteq> repo"
  then show "last_event_ids (fst (poll_repo api repo (st, w))) r = last_event_ids st r"
    by (rule poll_repo_other_repos)
qed

theorem poll_repo_watermark_witness:
  "last_event_ids (fst (poll_repo (events_api (Inr (Some demo_events))) ''octo/demo''
      (demo_feed (Some ''E100''), 0))) ''octo/demo'' = Some ''E105'' \<and>
   last_event_ids (fst (poll_repo (events_api (Inl (Exception ''boom''))) ''octo/demo''
      (demo_feed (Some ''E100''), 0))) = last_event_ids (demo_feed (Some ''E100'')) \<and>
   last_event_ids (fst (poll_repo (events_api (Inr None)) ''octo/demo''
      (demo_feed (Some ''E100''), 0))) = last_event_ids (demo_feed (Some ''E100'')) \<and>
   last_event_ids (fst (poll_repo (events_api (Inr None)) ''octo/demo''
      (demo_feed (Some ''E100''), 0))) ''octo/demo'' \<noteq> None \<and>
   last_event_ids (fst (poll_repo (events_api (Inr (Some demo_events))) ''octo/demo''
      (demo_feed (Some ''E100''), 0))) ''octo/other'' = None"
proof -
  have s: "subscribers (demo_feed (Some ''E100'')) ''octo/demo'' \<noteq> {}"
    by (simp add: subscribers_def demo_feed_def)
  have f1: "fetch_repo_events (events_api (Inr (Some demo_events))) ''octo/demo'' 5 (0::nat) =
              (Inr demo_events, Suc 0)"
    by (simp add: fetch_repo_events_def events_api_def static_api_def)
  have n1: "demo_events \<noteq> []" by (simp add: demo_events_def)
  have f2: "fetch_repo_events (events_api (Inl (Exception ''boom''))) ''octo/demo'' 5 (0::nat) =
              (Inl (Exception ''boom''), Suc 0)"
    by (simp add: fetch_repo_events_def events_api_def static_api_def)
  have f3: "fetch_repo_events (events_api (Inr None)) ''octo/demo'' 5 (0::nat) = (Inr [], Suc 0)"
    by (simp add: fetch_repo_events_def events_api_def static_api_def)
  have w0: "last_event_ids (demo_feed (Some ''E100'')) ''octo/demo'' \<noteq> None"
    by (simp add: demo_feed_def)
  have o: "''octo/other'' \<noteq> ''octo/demo''" by simp
  have o0: "last_event_ids (demo_feed (Some ''E100'')) ''octo/other'' = None"
    by (simp add: demo_feed_def)
  have e0: "event_id (demo_events ! 0) = ''E105''"
    by (simp add: demo_events_def push_event_def)
  note a = poll_repo_watermark [where st = "demo_feed (Some ''E100'')" and repo = "''octo/demo''"
      and api = "events_api (Inr (Some demo_events))" and w = "0::nat" and events = demo_events
      and w' = "Suc 0"]
  note b = poll_repo_watermark [where st = "demo_feed (Some ''E100'')" and repo = "''octo/demo''"
      and api = "events_api (Inl (Exception ''boom''))" and w = "0::nat"
      and e = "Exception ''boom''" and w' = "Suc 0"]
  note c = poll_repo_watermark [where st = "demo_feed (Some ''E100'')" and repo = "''octo/demo''"
      and api = "events_api (Inr None)" and w = "0::nat" and w' = "Suc 0"]
  from a s f1 n1 e0 o o0 b f2 c f3 w0 show ?thesis by metis
qed

text \<open>
  C2 as stated fails: the watermark regresses. A first poll fetches E105, E104, E100, E99
  and stores E105. A second poll is answered with the older page E104, E100: the watermark
  moves back from E105 to E104, the event that stands behind E105 in the first list, and
  the notifications of E100 and E104 are sent again.
\<close>

theorem poll_repo_watermark_counterexample:
  "event_id (demo_events ! 0) = ''E105'' \<and> event_id (demo_events ! 1) = ''E104'' \<and>
   last_event_ids (fst (poll_repo (events_api (Inr (Some demo_events))) ''octo/demo''
      (demo_feed (Some ''E100''), 0))) ''octo/demo'' = Some ''E105'' \<and>
   last_event_ids (fst (poll_repo (events_api (Inr (Some [push_event ''E104'', push_event ''E100''])))
      ''octo/demo''
      (fst (poll_repo (events_api (Inr (Some demo_events))) ''octo/demo''
         (demo_feed (Some ''E100''), 0)), 1))) ''octo/demo'' = Some ''E104'' \<and>
   channel_log (fst (poll_repo (events_api (Inr (Some [push_event ''E104'', push_event ''E100''])))
      ''octo/demo''
      (fst (poll_repo (events_api (Inr (Some demo_events))) ''octo/demo''
         (demo_feed (Some ''E100''), 0)), 1))) =
     [Notification ''octo/demo'' (push_event ''E104''), Notification ''octo/demo'' (push_event ''E105''),
      Notification ''octo/demo'' (push_event ''E100''), Notification ''octo/demo'' (push_event ''E104'')]"
  by (simp add: poll_repo_def fetch_repo_events_def events_api_def static_api_def demo_feed_def
      demo_events_def subscribers_def push_event_def create_event_embed_def truthy_opt_str_def
      truthy_str_def Let_def)

text \<open>
  C3. Cold start: when a subscribed repository has no stored watermark, the poll collects
  all \<open>N\<close> fetched events as new and sends the notifications of all of them, oldest first;
  the channel receives \<open>N\<close> messages, not none.
\<close>

theorem poll_repo_cold_start:
  assumes "subscribers st repo \<noteq> {}"
    and "fetch_repo_events api repo 5 w = (Inr events, w')"
    and "last_event_ids st repo = None"
  shows "collect_new_events (last_event_ids st repo) events [] = events \<and>
         channel_log (fst (poll_repo api repo (st, w))) =
           channel_log st @ map (create_event_embed repo) (rev events) \<and>
         length (channel_log (fst (poll_repo api repo (st, w)))) =
           length (channel_log st) + length events"
proof -
  have new: "collect_new_events (last_event_ids st repo) events [] = events"
    using assms(3) collect_new_events_all [of None events "[]"]
    by (simp add: truthy_opt_str_def)
  have log: "channel_log (fst (poll_repo api repo (st, w))) =
           channel_log st @ map (create_event_embed repo) (rev events)"
  proof (cases "events = []")
    case True
    with assms(2) show ?thesis by (simp add: poll_repo_empty)
  next
    case False
    from poll_repo_fetched [OF assms(1) assms(2) False] new
    show ?thesis by (simp add: channel_log_post_events)
  qed
  from new log show ?thesis by simp
qed

theorem poll_repo_cold_start_witness:
  "channel_log (fst (poll_repo (events_api (Inr (Some demo_events))) ''octo/demo''
      (demo_feed None, 0))) =
   [Notification ''octo/demo'' (push_event ''E99''), Notification ''octo/demo'' (push_event ''E100''),
    Notification ''octo/demo'' (push_event ''E104''), Notification ''octo/demo'' (push_event ''E105'')]"
proof -
  have h1: "subscribers (demo_feed None) ''octo/demo'' \<noteq> {}"
    by (simp add: subscribers_def demo_feed_def)
  have h2: "fetch_repo_events (events_api (Inr (Some demo_events))) ''octo/demo'' 5 (0::nat) =
              (Inr demo_events, Suc 0)"
    by (simp add: fetch_repo_events_def events_api_def static_api_def)
  have h3: "last_event_ids (demo_feed None) ''octo/demo'' = None"
    by (simp add: demo_feed_def)
  from poll_repo_cold_start [OF h1 h2 h3]
  show ?thesis
    by (simp add: demo_feed_def demo_events_def create_event_embed_def)
qed

section \<open>Properties of the stats aggregator\<close>

lemma fetch_user_stats_returns:
  "\<exists>r. fst (fetch_user_stats api uname org w) = Inr r \<and> stats_username r = uname"
  by (auto simp: fetch_user_stats_def fetch_user_stats_try_def Let_def
      split: prod.splits sum.splits)

lemma fetch_user_stats_not_found:
  assumes "fst (request_user api uname w) = Inr None \<or> fst (request_user api uname w) = Inr (Some [])"
  shows "fst (fetch_user_stats api uname org w) = Inr (StatsError uname ''User not found'')"
  using assms
  by (auto simp: fetch_user_stats_def fetch_user_stats_try_def fetch_user_info_def Let_def
      split: prod.splits sum.splits)

lemma fetch_user_stats_caught:
  "fst (fetch_user_stats_try api uname org w) = Inl e \<Longrightarrow>
   fst (fetch_user_stats api uname org w) = Inr (StatsError uname (exn_str e))"
  by (auto simp: fetch_user_stats_def split: prod.splits sum.splits)

lemma fetch_user_stats_try_user_raises:
  "request_user api uname w = (Inl e, w1) \<Longrightarrow> fst (fetch_user_stats_try api uname org w) = Inl e"
  by (simp add: fetch_user_stats_try_def fetch_user_info_def Let_def)

lemma fetch_user_stats_try_repos_raises:
  "request_user api uname w = (Inr (Some p), w1) \<Longrightarrow> p \<noteq> [] \<Longrightarrow>
   request_repos api uname w1 = (Inl e, w2) \<Longrightarrow>
   fst (fetch_user_stats_try api uname org w) = Inl e"
  by (simp add: fetch_user_stats_try_def fetch_user_info_def fetch_user_repos_def Let_def)

lemma fetch_user_stats_try_prs_raises:
  "request_user api uname w = (Inr (Some p), w1) \<Longrightarrow> p \<noteq> [] \<Longrightarrow>
   request_repos api uname w1 = (Inr rs, w2) \<Longrightarrow>
   request_search api (merged_prs_query api uname org (Some (clock api w - 365 * 86400))) w2 = (Inl e, w3) \<Longrightarrow>
   fst (fetch_user_stats_try api uname org w) = Inl e"
  by (simp add: fetch_user_stats_try_def fetch_user_info_def fetch_user_repos_def
      fetch_user_merged_prs_def Let_def)

lemma fetch_user_stats_try_issues_raises:
  "request_user api uname w = (Inr (Some p), w1) \<Longrightarrow> p \<noteq> [] \<Longrightarrow>
   request_repos api uname w1 = (Inr rs, w2) \<Longrightarrow>
   request_search api (merged_prs_query api uname org (Some (clock api w - 365 * 86400))) w2 = (Inr c, w3) \<Longrightarrow>
   request_search api (issues_opened_query api uname org (Some (clock api w - 365 * 86400))) w3 = (Inl e, w4) \<Longrightarrow>
   fst (fetch_user_stats_try api uname org w) = Inl e"
  by (simp add: fetch_user_stats_try_def fetch_user_info_def fetch_user_repos_def
      fetch_user_merged_prs_def fetch_user_issues_opened_def Let_def)



text \<open>
  C4. \<open>fetch_user_stats\<close> never raises: for every username, every outcome of the four
  requests and every state of the remote side it returns a record that carries the
  username. When the profile lookup yields no data (\<open>None\<close> or an empty dictionary) the
  record is the error record with the marker "User not found". An exception that leaves
  the \<open>try\<close> block, raised by the profile request, the repository request or either search
  request, is turned into the error record that carries the username and \<open>str(e)\<close>.
\<close>

theorem fetch_user_stats_never_raises:
  "(\<exists>r. fst (fetch_user_stats api uname org w) = Inr r \<and> stats_username r = uname) \<and>
   (fst (request_user api uname w) = Inr None \<or> fst (request_user api uname w) = Inr (Some []) \<longrightarrow>
      fst (fetch_user_stats api uname org w) = Inr (StatsError uname ''User not found'')) \<and>
   (fst (fetch_user_stats_try api uname org w) = Inl e \<longrightarrow>
      fst (fetch_user_stats api uname org w) = Inr (StatsError uname (exn_str e))) \<and>
   (request_user api uname w = (Inl e, w1) \<longrightarrow>
      fst (fetch_user_stats api uname org w) = Inr (StatsError uname (exn_str e))) \<and>
   (request_user api uname w = (Inr (Some p), w1) \<and> p \<noteq> [] \<and>
    request_repos api uname w1 = (Inl e, w2) \<longrightarrow>
      fst (fetch_user_stats api uname org w) = Inr (StatsError uname (exn_str e))) \<and>
   (request_user api uname w = (Inr (Some p), w1) \<and> p \<noteq> [] \<and>
    request_repos api uname w1 = (Inr rs, w2) \<and>
    request_search api (merged_prs_query api uname org (Some (clock api w - 365 * 86400))) w2 = (Inl e, w3) \<longrightarrow>
      fst (fetch_user_stats api uname org w) = Inr (StatsError uname (exn_str e))) \<and>
   (request_user api uname w = (Inr (Some p), w1) \<and> p \<noteq> [] \<and>
    request_repos api uname w1 = (Inr rs, w2) \<and>
    request_search api (merged_prs_query api uname org (Some (clock api w - 365 * 86400))) w2 = (Inr c, w3) \<and>
    request_search api (issues_opened_query api uname org (Some (clock api w - 365 * 86400))) w3 = (Inl e, w4) \<longrightarrow>
      fst (fetch_user_stats api uname org w) = Inr (StatsError uname (exn_str e)))"
proof (intro conjI impI)
  show "\<exists>r. fst (fetch_user_stats api uname org w) = Inr r \<and> stats_username r = uname"
    by (rule fetch_user_stats_returns)
next
  assume "fst (request_user api uname w) = Inr None \<or> fst (request_user api uname w) = Inr (Some [])"
  then show "fst (fetch_user_stats api uname org w) = Inr (StatsError uname ''User not found'')"
    by (rule fetch_user_stats_not_found)
next
  assume "fst (fetch_user_stats_try api uname org w) = Inl e"
  then show "fst (fetch_user_stats api uname org w) = Inr (StatsError uname (exn_str e))"
    by (rule fetch_user_stats_caught)
next
  assume "request_user api uname w = (Inl e, w1)"
  then show "fst (fetch_user_stats api uname org w) = Inr (StatsError uname (exn_str e))"
    by (intro fetch_user_stats_caught fetch_user_stats_try_user_raises)
next
  assume "request_user api uname w = (Inr (Some p), w1) \<and> p \<noteq> [] \<and>
    request_repos api uname w1 = (Inl e, w2)"
  then show "fst (fetch_user_stats api uname org w) = Inr (StatsError uname (exn_str e))"
    by (intro fetch_user_stats_caught) (auto intro: fetch_user_stats_try_repos_raises)
next
  assume "request_user api uname w = (Inr (Some p), w1) \<and> p \<noteq> [] \<and>
    request_repos api uname w1 = (Inr rs, w2) \<and>
    request_search api (merged_prs_query api uname org (Some (clock api w - 365 * 86400))) w2 = (Inl e, w3)"
  then show "fst (fetch_user_stats api uname org w) = Inr (StatsError uname (exn_str e))"
    by (intro fetch_user_stats_caught) (auto intro: fetch_user_stats_try_prs_raises)
next
  assume "request_user api uname w = (Inr (Some p), w1) \<and> p \<noteq> [] \<and>
    request_repos api uname w1 = (Inr rs, w2) \<and>
    request_search api (merged_prs_query api uname org (Some (clock api w - 365 * 86400))) w2 = (Inr c, w3) \<and>
    request_search api (issues_opened_query api uname org (Some (clock api w - 365 * 86400))) w3 = (Inl e, w4)"
  then show "fst (fetch_user_stats api uname org w) = Inr (StatsError uname (exn_str e))"
    by (intro fetch_user_stats_caught) (auto intro: fetch_user_stats_try_issues_raises)
qed

theorem fetch_user_stats_never_raises_witness:
  "fst (fetch_user_stats (static_api (Inr None) (Inr None) two_found (Inr None)) ''ghost'' None 0) =
     Inr (StatsError ''ghost'' ''User not found'') \<and>
   fst (fetch_user_stats (static_api (Inl (Exception ''boom'')) (Inr None) two_found (Inr None))
     ''octocat'' None 0) = Inr (StatsError ''octocat'' ''boom'') \<and>
   fst (fetch_user_stats (static_api (Inr (Some octocat_profile)) (Inl (Exception ''boom'')) two_found (Inr None))
     ''octocat'' None 0) = Inr (StatsError ''octocat'' ''boom'') \<and>
   fst (fetch_user_stats (static_api (Inr (Some octocat_profile)) (Inr None) (\<lambda>w. Inl (Exception ''boom'')) (Inr None))
     ''octocat'' None 0) = Inr (StatsError ''octocat'' ''boom'') \<and>
   fst (fetch_user_stats (static_api (Inr (Some octocat_profile)) (Inr None) second_search_fails (Inr None))
     ''octocat'' None 0) = Inr (StatsError ''octocat'' ''boom'')"
proof -
  have p: "octocat_profile \<noteq> []" by (simp add: octocat_profile_def)
  have a: "fst (request_user (static_api (Inr None) (Inr None) two_found (Inr None)) ''ghost'' 0) = Inr None"
    by (simp add: static_api_def)
  have b: "request_user (static_api (Inl (Exception ''boom'')) (Inr None) two_found (Inr None))
             ''octocat'' 0 = (Inl (Exception ''boom''), Suc 0)"
    by (simp add: static_api_def)
  have c: "request_user (static_api (Inr (Some octocat_profile)) (Inl (Exception ''boom'')) two_found (Inr None))
             ''octocat'' 0 = (Inr (Some octocat_profile), Suc 0) \<and> octocat_profile \<noteq> [] \<and>
           request_repos (static_api (Inr (Some octocat_profile)) (Inl (Exception ''boom'')) two_found (Inr None))
             ''octocat'' (Suc 0) = (Inl (Exception ''boom''), Suc (Suc 0))"
    using p by (simp add: static_api_def)
  have d: "request_user (static_api (Inr (Some octocat_profile)) (Inr None) (\<lambda>w. Inl (Exception ''boom'')) (Inr None))
             ''octocat'' 0 = (Inr (Some octocat_profile), Suc 0) \<and> octocat_profile \<noteq> [] \<and>
           request_repos (static_api (Inr (Some octocat_profile)) (Inr None) (\<lambda>w. Inl (Exception ''boom'')) (Inr None))
             ''octocat'' (Suc 0) = (Inr None, Suc (Suc 0)) \<and>
           request_search (static_api (Inr (Some octocat_profile)) (Inr None) (\<lambda>w. Inl (Exception ''boom'')) (Inr None))
             (merged_prs_query (static_api (Inr (Some octocat_profile)) (Inr None) (\<lambda>w. Inl (Exception ''boom'')) (Inr None))
                ''octocat'' None
                (Some (clock (static_api (Inr (Some octocat_profile)) (Inr None) (\<lambda>w. Inl (Exception ''boom'')) (Inr None)) 0
                       - 365 * 86400)))
             (Suc (Suc 0)) = (Inl (Exception ''boom''), Suc (Suc (Suc 0)))"
    using p by (simp add: static_api_def)
  have e: "request_user (static_api (Inr (Some octocat_profile)) (Inr None) second_search_fails (Inr None))
             ''octocat'' 0 = (Inr (Some octocat_profile), Suc 0) \<and> octocat_profile \<noteq> [] \<and>
           request_repos (static_api (Inr (Some octocat_profile)) (Inr None) second_search_fails (Inr None))
             ''octocat'' (Suc 0) = (Inr None, Suc (Suc 0)) \<and>
           request_search (static_api (Inr (Some octocat_profile)) (Inr None) second_search_fails (Inr None))
             (merged_prs_query (static_api (Inr (Some octocat_profile)) (Inr None) second_search_fails (Inr None))
                ''octocat'' None
                (Some (clock (static_api (Inr (Some octocat_profile)) (Inr None) second_search_fails (Inr None)) 0
                       - 365 * 86400)))
             (Suc (Suc 0)) = (Inr (Some \<lparr>total_count = Some 2\<rparr>), Suc (Suc (Suc 0))) \<and>
           request_search (static_api (Inr (Some octocat_profile)) (Inr None) second_search_fails (Inr None))
             (issues_opened_query (static_api (Inr (Some octocat_profile)) (Inr None) second_search_fails (Inr None))
                ''octocat'' None
                (Some (clock (static_api (Inr (Some octocat_profile)) (Inr None) second_search_fails (Inr None)) 0
                       - 365 * 86400)))
             (Suc (Suc (Suc 0))) = (Inl (Exception ''boom''), Suc (Suc (Suc (Suc 0))))"
    using p by (simp add: static_api_def second_search_fails_def)
  have x: "exn_str (Exception ''boom'') = ''boom''" by simp
  from a fetch_user_stats_never_raises
         [where api = "static_api (Inr None) (Inr None) two_found (Inr None)" and uname = "''ghost''"
            and org = None and w = "0::nat"]
  have A: "fst (fetch_user_stats (static_api (Inr None) (Inr None) two_found (Inr None)) ''ghost'' None 0) =
     Inr (StatsError ''ghost'' ''User not found'')" by blast
  from b x fetch_user_stats_never_raises
         [where api = "static_api (Inl (Exception ''boom'')) (Inr None) two_found (Inr None)"
            and uname = "''octocat''" and org = None and w = "0::nat" and e = "Exception ''boom''"
            and ?w1.0 = "Suc 0"]
  have B: "fst (fetch_user_stats (static_api (Inl (Exception ''boom'')) (Inr None) two_found (Inr None))
     ''octocat'' None 0) = Inr (StatsError ''octocat'' ''boom'')" by metis
  from c x fetch_user_stats_never_raises
         [where api = "static_api (Inr (Some octocat_profile)) (Inl (Exception ''boom'')) two_found (Inr None)"
            and uname = "''octocat''" and org = None and w = "0::nat" and e = "Exception ''boom''"
            and ?w1.0 = "Suc 0" and ?w2.0 = "Suc (Suc 0)" and p = octocat_profile]
  have C: "fst (fetch_user_stats (static_api (Inr (Some octocat_profile)) (Inl (Exception ''boom'')) two_found (Inr None))
     ''octocat'' None 0) = Inr (StatsError ''octocat'' ''boom'')" by metis
  from d x fetch_user_stats_never_raises
         [where api = "static_api (Inr (Some octocat_profile)) (Inr None) (\<lambda>w. Inl (Exception ''boom'')) (Inr None)"
            and uname = "''octocat''" and org = None and w = "0::nat" and e = "Exception ''boom''"
            and ?w1.0 = "Suc 0" and ?w2.0 = "Suc (Suc 0)" and ?w3.0 = "Suc (Suc (Suc 0))"
            and p = octocat_profile and rs = None]
  have D: "fst (fetch_user_stats (static_api (Inr (Some octocat_profile)) (Inr None) (\<lambda>w. Inl (Exception ''boom'')) (Inr None))
     ''octocat'' None 0) = Inr (StatsError ''octocat'' ''boom'')" by metis
  from e x fetch_user_stats_never_raises
         [where api = "static_api (Inr (Some octocat_profile)) (Inr None) second_search_fails (Inr None)"
            and uname = "''octocat''" and org = None and w = "0::nat" and e = "Exception ''boom''"
            and ?w1.0 = "Suc 0" and ?w2.0 = "Suc (Suc 0)" and ?w3.0 = "Suc (Suc (Suc 0))"
            and ?w4.0 = "Suc (Suc (Suc (Suc 0)))"
            and p = octocat_profile and rs = None and c = "Some \<lparr>total_count = Some 2\<rparr>"]
  have E: "fst (fetch_user_stats (static_api (Inr (Some octocat_profile)) (Inr None) second_search_fails (Inr None))
     ''octocat'' None 0) = Inr (StatsError ''octocat'' ''boom'')" by metis
  from A B C D E show ?thesis by simp
qed



section \<open>Properties of the ranking\<close>

lemma sort_by_total_stars_sorted:
  "sorted_wrt (\<lambda>a b. stat_stars a \<ge> stat_stars b) (sort_by_total_stars us)"
proof -
  have "sorted (map stat_stars (sort_key stat_stars (rev us)))" by simp
  then have "sorted_wrt (\<lambda>a b. stat_stars a \<le> stat_stars b) (sort_key stat_stars (rev us))"
    by (simp add: sorted_map)
  then show ?thesis
    by (simp add: sort_by_total_stars_def sorted_wrt_rev)
qed

lemma sort_by_total_stars_mset: "mset (sort_by_total_stars us) = mset us"
  by (simp add: sort_by_total_stars_def)

lemma sort_by_total_stars_set: "set (sort_by_total_stars us) = set us"
  by (simp add: sort_by_total_stars_def)

lemma sort_by_total_stars_length: "length (sort_by_total_stars us) = length us"
  by (simp add: sort_by_total_stars_def)


lemma sort_by_total_stars_distinct_ids:
  "distinct (map stat_id (sort_by_total_stars us)) = distinct (map stat_id us)"
proof -
  have "mset (map stat_id (sort_by_total_stars us)) = mset (map stat_id us)"
    by (simp add: sort_by_total_stars_mset)
  then show ?thesis by (rule mset_eq_imp_distinct_iff)
qed


lemma leaderboard_text_length: "length (leaderboard_text n g us) = min n (length us)"
  by (simp add: leaderboard_text_def min.commute)

section \<open>Properties of the role loops\<close>

lemma member_id_strip_role [simp]: "member_id (strip_role role m) = member_id m"
  by (simp add: strip_role_def)

lemma member_id_grant_role [simp]: "member_id (grant_role role m) = member_id m"
  by (simp add: grant_role_def)

lemma strip_role_absent: "role \<notin> member_roles m \<Longrightarrow> strip_role role m = m"
  by (simp add: strip_role_def)

lemma strip_role_twice [simp]: "strip_role role (strip_role role m) = strip_role role m"
  by (simp add: strip_role_def)

lemma grant_role_twice [simp]: "grant_role role (grant_role role m) = grant_role role m"
  by (simp add: grant_role_def)

lemma get_member_None: "get_member g i = None \<longleftrightarrow> i \<notin> member_ids g"
  by (auto simp: get_member_def member_ids_def find_None_iff)

lemma get_member_Some_id: "get_member g i = Some m \<Longrightarrow> member_id m = i \<and> m \<in> set (guild_members g)"
  by (auto simp: get_member_def find_Some_iff)

lemma get_member_unique:
  assumes "distinct (map member_id (guild_members g))" and "get_member g i = Some m"
    and "m' \<in> set (guild_members g)" and "member_id m' = i"
  shows "m' = m"
proof -
  from assms(2) have "member_id m = i" "m \<in> set (guild_members g)"
    by (simp_all add: get_member_Some_id)
  moreover from assms(1) have "inj_on member_id (set (guild_members g))"
    by (simp add: distinct_map)
  ultimately show ?thesis using assms(3) assms(4) by (auto dest: inj_onD)
qed

lemma member_ids_map:
  "(\<And>m. member_id (f m) = member_id m) \<Longrightarrow>
   member_ids (g\<lparr>guild_members := map f (guild_members g)\<rparr>) = member_ids g"
  by (simp add: member_ids_def comp_def)

lemma remove_roles_eq:
  "remove_roles i role (g, log) =
     (g\<lparr>guild_members := map (\<lambda>m. if member_id m = i then strip_role role m else m) (guild_members g)\<rparr>,
      log @ [RemoveRoles i role])"
  by (simp add: remove_roles_def strip_role_def)

lemma add_roles_eq:
  "add_roles i role (g, log) =
     (g\<lparr>guild_members := map (\<lambda>m. if member_id m = i then grant_role role m else m) (guild_members g)\<rparr>,
      log @ [AddRoles i role])"
  by (simp add: add_roles_def grant_role_def)

lemma remove_role_from_all_eq:
  "remove_role_from_all role ms (g, log) =
     (g\<lparr>guild_members :=
          map (\<lambda>m. if member_id m \<in> set (map member_id (filter (\<lambda>m. role \<in> member_roles m) ms))
                    then strip_role role m else m) (guild_members g)\<rparr>,
      log @ map (\<lambda>m. RemoveRoles (member_id m) role) (filter (\<lambda>m. role \<in> member_roles m) ms))"
proof (induction ms arbitrary: g log)
  case Nil
  show ?case by simp
next
  case (Cons m ms)
  show ?case
  proof (cases "role \<in> member_roles m")
    case True
    then show ?thesis
      by (simp add: remove_roles_eq Cons.IH comp_def)
  next
    case False
    then show ?thesis by (simp add: Cons.IH)
  qed
qed

lemma remove_role_from_all_members:
  "remove_role_from_all role (guild_members g) (g, log) =
     (g\<lparr>guild_members := map (strip_role role) (guild_members g)\<rparr>,
      log @ map (\<lambda>m. RemoveRoles (member_id m) role)
              (filter (\<lambda>m. role \<in> member_roles m) (guild_members g)))"
proof -
  have "map (\<lambda>m. if member_id m \<in> set (map member_id (filter (\<lambda>m. role \<in> member_roles m) (guild_members g)))
                    then strip_role role m else m) (guild_members g) =
        map (strip_role role) (guild_members g)"
  proof (rule map_cong [OF refl])
    fix m assume "m \<in> set (guild_members g)"
    then show "(if member_id m \<in> set (map member_id (filter (\<lambda>m. role \<in> member_roles m) (guild_members g)))
                then strip_role role m else m) = strip_role role m"
      by (cases "role \<in> member_roles m") (auto simp: strip_role_absent)
  qed
  then show ?thesis by (simp add: remove_role_from_all_eq)
qed

lemma add_role_to_each_eq:
  "add_role_to_each role xs (g, log) =
     (g\<lparr>guild_members :=
          map (\<lambda>m. if member_id m \<in> set (map stat_id xs) then grant_role role m else m) (guild_members g)\<rparr>,
      log @ map (\<lambda>x. AddRoles (stat_id x) role) (filter (\<lambda>x. stat_id x \<in> member_ids g) xs))"
proof (induction xs arbitrary: g log)
  case Nil
  show ?case by simp
next
  case (Cons x xs)
  show ?case
  proof (cases "get_member g (stat_id x)")
    case None
    then have out: "stat_id x \<notin> member_ids g" by (simp add: get_member_None)
    then have "map (\<lambda>m. if member_id m \<in> set (map stat_id (x # xs)) then grant_role role m else m) (guild_members g) =
               map (\<lambda>m. if member_id m \<in> set (map stat_id xs) then grant_role role m else m) (guild_members g)"
      by (intro map_cong [OF refl]) (force simp: member_ids_def)
    with None out show ?thesis by (simp add: Cons.IH)
  next
    case (Some m)
    then have i: "member_id m = stat_id x" and mem: "m \<in> set (guild_members g)"
      using get_member_Some_id [of g "stat_id x" m] by simp_all
    from i mem have inn: "stat_id x \<in> member_ids g"
      unfolding member_ids_def by force
    have ids: "member_ids (g\<lparr>guild_members := map (\<lambda>m. if member_id m = stat_id x then grant_role role m else m) (guild_members g)\<rparr>) = member_ids g"
      by (rule member_ids_map) simp
    have "map (\<lambda>m. if member_id m \<in> set (map stat_id xs) then grant_role role m else m)
            (map (\<lambda>m. if member_id m = stat_id x then grant_role role m else m) (guild_members g)) =
          map (\<lambda>m. if member_id m \<in> set (map stat_id (x # xs)) then grant_role role m else m) (guild_members g)"
      by (auto simp: comp_def)
    with Some i inn ids show ?thesis by (simp add: add_roles_eq Cons.IH)
  qed
qed

lemma get_or_create_role_eq:
  "get_or_create_role name (g, log) =
     (g\<lparr>guild_roles := ensure_role name (guild_roles g)\<rparr>,
      log @ (if name \<in> set (guild_roles g) then [] else [CreateRole name]))"
  by (simp add: get_or_create_role_def ensure_role_def)

lemma assign_top_contributor_roles_eq:
  "assign_top_contributor_roles us (g, log) =
     (g\<lparr>guild_roles := ensure_role top_role_name (guild_roles g),
        guild_members :=
          map (\<lambda>m. m\<lparr>member_roles := top_roles top_role_name (take 3 us) (member_id m) (member_roles m)\<rparr>)
              (guild_members g)\<rparr>,
      log @ (if top_role_name \<in> set (guild_roles g) then [] else [CreateRole top_role_name])
          @ map (\<lambda>m. RemoveRoles (member_id m) top_role_name)
              (filter (\<lambda>m. top_role_name \<in> member_roles m) (guild_members g))
          @ map (\<lambda>x. AddRoles (stat_id x) top_role_name)
              (filter (\<lambda>x. stat_id x \<in> member_ids g) (take 3 us)))"
proof -
  have m: "map (\<lambda>m. if member_id m \<in> set (map stat_id (take 3 us)) then grant_role top_role_name m else m)
             (map (strip_role top_role_name) (guild_members g)) =
           map (\<lambda>m. m\<lparr>member_roles := top_roles top_role_name (take 3 us) (member_id m) (member_roles m)\<rparr>)
             (guild_members g)"
    by (simp add: comp_def top_roles_def grant_role_def strip_role_def)
  have i: "member_ids (g\<lparr>guild_roles := ensure_role top_role_name (guild_roles g),
                          guild_members := map (strip_role top_role_name) (guild_members g)\<rparr>) = member_ids g"
    by (simp add: member_ids_def comp_def)
  show ?thesis
    using m i
    by (simp add: assign_top_contributor_roles_def Let_def get_or_create_role_eq
        remove_role_from_all_members [of top_role_name "g\<lparr>guild_roles := ensure_role top_role_name (guild_roles g)\<rparr>", simplified]
        add_role_to_each_eq)
qed

lemma find_map_option: "find P (map f xs) = map_option f (find (P \<circ> f) xs)"
  by (induction xs) auto

lemma get_member_map:
  assumes "\<And>m. member_id (f m) = member_id m"
  shows "get_member (g\<lparr>guild_members := map f (guild_members g)\<rparr>) i = map_option f (get_member g i)"
proof -
  have "(\<lambda>m. member_id m = i) \<circ> f = (\<lambda>m. member_id m = i)"
    using assms by (simp add: fun_eq_iff)
  then show ?thesis by (simp add: get_member_def find_map_option)
qed

lemma distinct_ids_map:
  assumes "\<And>m. member_id (f m) = member_id m"
  shows "map member_id (map f ms) = map member_id ms"
  using assms by (simp add: comp_def)

lemma open_source_loop_Cons:
  "open_source_loop role (x # xs) s = open_source_loop role xs (open_source_loop role [x] s)"
  by simp

lemma open_source_loop_single:
  assumes "distinct (map member_id (guild_members g))"
  shows "fst (open_source_loop role [x] (g, log)) =
           g\<lparr>guild_members :=
               map (\<lambda>m. if member_id m = stat_id x
                          then m\<lparr>member_roles :=
                                   (if meets_criteria (snd (snd x)) then insert role (member_roles m)
                                    else member_roles m - {role})\<rparr>
                          else m)
                   (guild_members g)\<rparr>"
proof (cases "get_member g (stat_id x)")
  case None
  then have "stat_id x \<notin> member_ids g" by (simp add: get_member_None)
  then have "map (\<lambda>m. if member_id m = stat_id x
                          then m\<lparr>member_roles :=
                                   (if meets_criteria (snd (snd x)) then insert role (member_roles m)
                                    else member_roles m - {role})\<rparr>
                          else m)
                   (guild_members g) = map (\<lambda>m. m) (guild_members g)"
    by (intro map_cong [OF refl]) (force simp: member_ids_def)
  with None show ?thesis by simp
next
  case (Some m0)
  have only: "m = m0" if "m \<in> set (guild_members g)" and "member_id m = stat_id x" for m
    using get_member_unique [OF assms Some that] .
  have nochange:
    "map (\<lambda>m. if member_id m = stat_id x
               then m\<lparr>member_roles :=
                        (if meets_criteria (snd (snd x)) then insert role (member_roles m)
                         else member_roles m - {role})\<rparr>
               else m)
         (guild_members g) = guild_members g"
    if keep: "(if meets_criteria (snd (snd x)) then insert role (member_roles m0)
               else member_roles m0 - {role}) = member_roles m0"
  proof -
    have "map (\<lambda>m. if member_id m = stat_id x
               then m\<lparr>member_roles :=
                        (if meets_criteria (snd (snd x)) then insert role (member_roles m)
                         else member_roles m - {role})\<rparr>
               else m)
         (guild_members g) = map (\<lambda>m. m) (guild_members g)"
    proof (rule map_cong [OF refl])
      fix m assume m: "m \<in> set (guild_members g)"
      show "(if member_id m = stat_id x
               then m\<lparr>member_roles :=
                        (if meets_criteria (snd (snd x)) then insert role (member_roles m)
                         else member_roles m - {role})\<rparr>
               else m) = m"
      proof (cases "member_id m = stat_id x")
        case True
        with m have "m = m0" by (rule only)
        with keep True show ?thesis by (simp split: if_splits)
      next
        case False
        then show ?thesis by simp
      qed
    qed
    then show ?thesis by simp
  qed
  from get_member_Some_id [OF Some] have i: "member_id m0 = stat_id x" by simp
  show ?thesis
  proof (cases "meets_criteria (snd (snd x))")
    case True
    show ?thesis
    proof (cases "role \<in> member_roles m0")
      case in_roles: True
      then have "insert role (member_roles m0) = member_roles m0" by auto
      with True have "map (\<lambda>m. if member_id m = stat_id x
               then m\<lparr>member_roles :=
                        (if meets_criteria (snd (snd x)) then insert role (member_roles m)
                         else member_roles m - {role})\<rparr>
               else m)
         (guild_members g) = guild_members g"
        by (intro nochange) simp
      with Some True in_roles show ?thesis by simp
    next
      case False
      with Some True i show ?thesis by (simp add: add_roles_eq grant_role_def)
    qed
  next
    case False
    show ?thesis
    proof (cases "role \<in> member_roles m0")
      case True
      with Some False i show ?thesis by (simp add: remove_roles_eq strip_role_def)
    next
      case not_in: False
      then have "member_roles m0 - {role} = member_roles m0" by auto
      with False have "map (\<lambda>m. if member_id m = stat_id x
               then m\<lparr>member_roles :=
                        (if meets_criteria (snd (snd x)) then insert role (member_roles m)
                         else member_roles m - {role})\<rparr>
               else m)
         (guild_members g) = guild_members g"
        by (intro nochange) simp
      with Some False not_in show ?thesis by simp
    qed
  qed
qed

lemma open_source_loop_fst:
  "distinct (map member_id (guild_members g)) \<Longrightarrow>
   fst (open_source_loop role xs (g, log)) =
     g\<lparr>guild_members :=
         map (\<lambda>m. m\<lparr>member_roles := os_roles role xs (member_id m) (member_roles m)\<rparr>) (guild_members g)\<rparr>"
proof (induction xs arbitrary: g log)
  case Nil
  show ?case by simp
next
  case (Cons x xs)
  obtain g' log' where step: "open_source_loop role [x] (g, log) = (g', log')"
    by (cases "open_source_loop role [x] (g, log)")
  from open_source_loop_single [OF Cons.prems, of role x log] step
  have g': "g' = g\<lparr>guild_members :=
               map (\<lambda>m. if member_id m = stat_id x
                          then m\<lparr>member_roles :=
                                   (if meets_criteria (snd (snd x)) then insert role (member_roles m)
                                    else member_roles m - {role})\<rparr>
                          else m)
                   (guild_members g)\<rparr>"
    by simp
  have "map member_id (guild_members g') = map member_id (guild_members g)"
    unfolding g' by (simp add: comp_def if_distrib [of member_id])
  with Cons.prems have d': "distinct (map member_id (guild_members g'))" by simp
  have "fst (open_source_loop role (x # xs) (g, log)) = fst (open_source_loop role xs (g', log'))"
    by (subst open_source_loop_Cons) (simp only: step)
  also have "\<dots> = g'\<lparr>guild_members :=
         map (\<lambda>m. m\<lparr>member_roles := os_roles role xs (member_id m) (member_roles m)\<rparr>) (guild_members g')\<rparr>"
    by (rule Cons.IH [OF d'])
  also have "\<dots> = g\<lparr>guild_members :=
         map (\<lambda>m. m\<lparr>member_roles := os_roles role (x # xs) (member_id m) (member_roles m)\<rparr>) (guild_members g)\<rparr>"
    unfolding g' by (auto simp: comp_def)
  finally show ?case .
qed

lemma reconcile_roles_fst:
  assumes "distinct (map member_id (guild_members g))"
  shows "fst (reconcile_roles us (g, log)) = reconciled us g"
proof -
  obtain g1 log1 where top: "assign_top_contributor_roles us (g, log) = (g1, log1)"
    by (cases "assign_top_contributor_roles us (g, log)")
  from top have g1: "g1 = g\<lparr>guild_roles := ensure_role top_role_name (guild_roles g),
        guild_members :=
          map (\<lambda>m. m\<lparr>member_roles := top_roles top_role_name (take 3 us) (member_id m) (member_roles m)\<rparr>)
              (guild_members g)\<rparr>"
    by (simp add: assign_top_contributor_roles_eq)
  have "map member_id (guild_members g1) = map member_id (guild_members g)"
    unfolding g1 by (simp add: comp_def)
  with assms have d1: "distinct (map member_id (guild_members (g1\<lparr>guild_roles := ensure_role os_role_name (guild_roles g1)\<rparr>)))"
    by simp
  have "fst (reconcile_roles us (g, log)) =
        fst (open_source_loop os_role_name us
               (g1\<lparr>guild_roles := ensure_role os_role_name (guild_roles g1)\<rparr>,
                log1 @ (if os_role_name \<in> set (guild_roles g1) then [] else [CreateRole os_role_name])))"
    by (simp add: reconcile_roles_def assign_open_source_roles_def top get_or_create_role_eq)
  also have "\<dots> = reconciled us g"
    unfolding open_source_loop_fst [OF d1] by (simp add: g1 reconciled_def comp_def)
  finally show ?thesis .
qed

lemma os_roles_cases:
  "(\<forall>rs. os_roles role xs i rs = rs) \<or> (\<forall>rs. os_roles role xs i rs = insert role rs) \<or>
   (\<forall>rs. os_roles role xs i rs = rs - {role})"
proof (induction xs)
  case Nil
  show ?case by simp
next
  case (Cons x xs)
  then show ?case by (elim disjE) auto
qed

lemma os_roles_other: "r \<noteq> role \<Longrightarrow> r \<in> os_roles role xs i rs \<longleftrightarrow> r \<in> rs"
  using os_roles_cases [of role xs i] by auto

lemma os_roles_not_listed: "i \<notin> set (map stat_id xs) \<Longrightarrow> os_roles role xs i rs = rs"
  by (induction xs arbitrary: rs) auto

lemma os_roles_listed:
  assumes "distinct (map stat_id xs)" and "x \<in> set xs"
  shows "os_roles role xs (stat_id x) rs =
           (if meets_criteria (snd (snd x)) then insert role rs else rs - {role})"
  using assms
proof (induction xs arbitrary: rs)
  case Nil
  then show ?case by simp
next
  case (Cons y ys)
  show ?case
  proof (cases "x = y")
    case True
    with Cons.prems have "stat_id x \<notin> set (map stat_id ys)" by auto
    with True show ?thesis by (simp add: os_roles_not_listed)
  next
    case False
    with Cons.prems have "x \<in> set ys" "distinct (map stat_id ys)" "stat_id y \<noteq> stat_id x"
      by (auto simp: image_iff)
    with Cons.IH show ?thesis by simp
  qed
qed

lemma top_os_distinct: "top_role_name \<noteq> os_role_name"
  by (simp add: top_role_name_def os_role_name_def)

lemma reconciled_idem: "reconciled us (reconciled us g) = reconciled us g"
proof -
  have roles: "ensure_role os_role_name (ensure_role top_role_name
                 (ensure_role os_role_name (ensure_role top_role_name rs))) =
               ensure_role os_role_name (ensure_role top_role_name rs)" for rs
    by (simp add: ensure_role_def)
  have G: "os_roles os_role_name us i (top_roles top_role_name (take 3 us) i
             (os_roles os_role_name us i (top_roles top_role_name (take 3 us) i rs))) =
           os_roles os_role_name us i (top_roles top_role_name (take 3 us) i rs)" for i rs
    using os_roles_cases [of os_role_name us i] top_os_distinct
    by (elim disjE) (auto simp: top_roles_def)
  show ?thesis
    by (simp add: reconciled_def roles comp_def G)
qed

lemma has_role_reconciled:
  "has_role (reconciled us g) i role =
     (case get_member g i of
        None \<Rightarrow> False
      | Some m \<Rightarrow> role \<in> os_roles os_role_name us i
                         (top_roles top_role_name (take 3 us) i (member_roles m)))"
proof -
  have "get_member (reconciled us g) i =
        map_option (\<lambda>m. m\<lparr>member_roles :=
                      os_roles os_role_name us (member_id m)
                        (top_roles top_role_name (take 3 us) (member_id m) (member_roles m))\<rparr>)
          (get_member g i)"
    using get_member_map [of "\<lambda>m. m\<lparr>member_roles :=
                      os_roles os_role_name us (member_id m)
                        (top_roles top_role_name (take 3 us) (member_id m) (member_roles m))\<rparr>"
        "g\<lparr>guild_roles := ensure_role os_role_name (ensure_role top_role_name (guild_roles g))\<rparr>" i]
    by (simp add: reconciled_def get_member_def)
  then show ?thesis
    by (auto simp: has_role_def split: option.splits dest: get_member_Some_id)
qed

section \<open>Properties of role reconciliation\<close>

lemma removed_from_append:
  "removed_from role (xs @ ys) = removed_from role xs @ removed_from role ys"
  by (induction role xs rule: removed_from.induct) auto

lemma added_to_append: "added_to role (xs @ ys) = added_to role xs @ added_to role ys"
  by (induction role xs rule: added_to.induct) auto

lemma removed_from_removes:
  "removed_from role (map (\<lambda>m. RemoveRoles (f m) role) ms) = map f ms"
  by (induction ms) auto

lemma removed_from_adds: "removed_from role (map (\<lambda>x. AddRoles (f x) r) xs) = []"
  by (induction xs) auto

lemma added_to_adds: "added_to role (map (\<lambda>x. AddRoles (f x) role) xs) = map f xs"
  by (induction xs) auto

lemma added_to_removes: "added_to role (map (\<lambda>m. RemoveRoles (f m) r) ms) = []"
  by (induction ms) auto

lemma assign_top_removed:
  "removed_from top_role_name (snd (assign_top_contributor_roles us (g, []))) =
     map member_id (filter (\<lambda>m. top_role_name \<in> member_roles m) (guild_members g))"
  by (simp add: assign_top_contributor_roles_eq removed_from_append removed_from_removes
      removed_from_adds)

lemma assign_top_added:
  "added_to top_role_name (snd (assign_top_contributor_roles us (g, []))) =
     filter (\<lambda>i. i \<in> member_ids g) (map stat_id (take 3 us))"
  by (simp add: assign_top_contributor_roles_eq added_to_append added_to_removes
      added_to_adds filter_map comp_def)

lemma assign_top_holders:
  "holders (fst (assign_top_contributor_roles us (g, log))) top_role_name =
     set (map stat_id (take 3 us)) \<inter> member_ids g"
proof -
  have "map member_id (filter (\<lambda>m. top_role_name \<in> member_roles m)
          (map (\<lambda>m. m\<lparr>member_roles := top_roles top_role_name (take 3 us) (member_id m) (member_roles m)\<rparr>)
             (guild_members g))) =
        filter (\<lambda>i. i \<in> set (map stat_id (take 3 us))) (map member_id (guild_members g))"
    by (simp add: filter_map comp_def top_roles_def)
  then show ?thesis
    by (auto simp add: assign_top_contributor_roles_eq holders_def member_ids_def)
qed

lemma holders_members: "holders g role \<subseteq> member_ids g"
  by (auto simp: holders_def member_ids_def)

lemma monthly_leaderboard_roles:
  "us \<noteq> [] \<Longrightarrow>
   map_option fst (monthly_leaderboard (Some g) us) =
     Some (Some (assign_top_contributor_roles (sort_by_total_stars us) (g, [])))"
  by (simp add: monthly_leaderboard_def assign_top_contributor_roles_def Let_def)

text \<open>
  C6 (as amended). Top-3 reconciliation is a full replace: it sends a removal of the role
  for every current holder, also for one that is in the new top 3, and then an addition
  for every present member among the first three entries, also for one that held the
  role. The members that hold the role afterwards are exactly the present members among
  the first three entries, so the net change is the minimal delta: the role is lost by
  exactly the holders outside the new top 3 and gained by exactly the present members of
  the new top 3 that lacked it. The monthly leaderboard runs the same update on its
  ranked list.
\<close>

theorem assign_top_contributor_roles_full_replace:
  "removed_from top_role_name (snd (assign_top_contributor_roles us (g, []))) =
     map member_id (filter (\<lambda>m. top_role_name \<in> member_roles m) (guild_members g)) \<and>
   set (removed_from top_role_name (snd (assign_top_contributor_roles us (g, [])))) =
     holders g top_role_name \<and>
   added_to top_role_name (snd (assign_top_contributor_roles us (g, []))) =
     filter (\<lambda>i. i \<in> member_ids g) (map stat_id (take 3 us)) \<and>
   set (added_to top_role_name (snd (assign_top_contributor_roles us (g, [])))) =
     set (map stat_id (take 3 us)) \<inter> member_ids g \<and>
   holders (fst (assign_top_contributor_roles us (g, []))) top_role_name =
     set (map stat_id (take 3 us)) \<inter> member_ids g \<and>
   holders g top_role_name - holders (fst (assign_top_contributor_roles us (g, []))) top_role_name =
     holders g top_role_name - set (map stat_id (take 3 us)) \<and>
   holders (fst (assign_top_contributor_roles us (g, []))) top_role_name - holders g top_role_name =
     (set (map stat_id (take 3 us)) \<inter> member_ids g) - holders g top_role_name \<and>
   (us \<noteq> [] \<longrightarrow>
      map_option fst (monthly_leaderboard (Some g) us) =
        Some (Some (assign_top_contributor_roles (sort_by_total_stars us) (g, []))))"
proof (intro conjI impI)
  show "removed_from top_role_name (snd (assign_top_contributor_roles us (g, []))) =
     map member_id (filter (\<lambda>m. top_role_name \<in> member_roles m) (guild_members g))"
    by (rule assign_top_removed)
  show "set (removed_from top_role_name (snd (assign_top_contributor_roles us (g, [])))) =
     holders g top_role_name"
    by (simp only: assign_top_removed holders_def)
  show "added_to top_role_name (snd (assign_top_contributor_roles us (g, []))) =
     filter (\<lambda>i. i \<in> member_ids g) (map stat_id (take 3 us))"
    by (rule assign_top_added)
  show "set (added_to top_role_name (snd (assign_top_contributor_roles us (g, [])))) =
     set (map stat_id (take 3 us)) \<inter> member_ids g"
    by (auto simp only: assign_top_added set_filter)
  show "holders (fst (assign_top_contributor_roles us (g, []))) top_role_name =
     set (map stat_id (take 3 us)) \<inter> member_ids g"
    by (rule assign_top_holders)
  show "holders g top_role_name - holders (fst (assign_top_contributor_roles us (g, []))) top_role_name =
     holders g top_role_name - set (map stat_id (take 3 us))"
    using holders_members [of g top_role_name] by (auto simp only: assign_top_holders)
  show "holders (fst (assign_top_contributor_roles us (g, []))) top_role_name - holders g top_role_name =
     (set (map stat_id (take 3 us)) \<inter> member_ids g) - holders g top_role_name"
    by (simp only: assign_top_holders)
  show "map_option fst (monthly_leaderboard (Some g) us) =
        Some (Some (assign_top_contributor_roles (sort_by_total_stars us) (g, [])))" if "us \<noteq> []"
    using that by (rule monthly_leaderboard_roles)
qed

theorem assign_top_contributor_roles_full_replace_witness:
  "map_option fst (monthly_leaderboard (Some demo_guild) [user_A, user_B, user_C]) =
     Some (Some (assign_top_contributor_roles [user_B, user_C, user_A] (demo_guild, []))) \<and>
   removed_from top_role_name (snd (assign_top_contributor_roles [user_B, user_C, user_A] (demo_guild, []))) = [1] \<and>
   added_to top_role_name (snd (assign_top_contributor_roles [user_B, user_C, user_A] (demo_guild, []))) = [2, 3, 1] \<and>
   holders (fst (assign_top_contributor_roles [user_B, user_C, user_A] (demo_guild, []))) top_role_name = {1, 2, 3}"
proof -
  have ne: "[user_A, user_B, user_C] \<noteq> []" by simp
  have s: "sort_by_total_stars [user_A, user_B, user_C] = [user_B, user_C, user_A]"
    by (simp add: sort_by_total_stars_def stat_stars_def user_A_def user_B_def user_C_def
        demo_stats_def)
  have r: "map member_id (filter (\<lambda>m. top_role_name \<in> member_roles m) (guild_members demo_guild)) = [1]"
    by (simp add: demo_guild_def top_role_name_def)
  have a: "filter (\<lambda>i. i \<in> member_ids demo_guild) (map stat_id (take 3 [user_B, user_C, user_A])) = [2, 3, 1]"
    by (simp add: demo_guild_def member_ids_def stat_id_def user_A_def user_B_def user_C_def)
  have h: "set (map stat_id (take 3 [user_B, user_C, user_A])) \<inter> member_ids demo_guild = {1, 2, 3}"
    by (auto simp: demo_guild_def member_ids_def stat_id_def user_A_def user_B_def user_C_def)
  note m = assign_top_contributor_roles_full_replace [where us = "[user_A, user_B, user_C]" and g = demo_guild]
  note t = assign_top_contributor_roles_full_replace [where us = "[user_B, user_C, user_A]" and g = demo_guild]
  from m ne have "map_option fst (monthly_leaderboard (Some demo_guild) [user_A, user_B, user_C]) =
        Some (Some (assign_top_contributor_roles (sort_by_total_stars [user_A, user_B, user_C]) (demo_guild, [])))"
    by blast
  moreover from t have "removed_from top_role_name (snd (assign_top_contributor_roles [user_B, user_C, user_A] (demo_guild, []))) =
     map member_id (filter (\<lambda>m. top_role_name \<in> member_roles m) (guild_members demo_guild))"
    by blast
  moreover from t have "added_to top_role_name (snd (assign_top_contributor_roles [user_B, user_C, user_A] (demo_guild, []))) =
     filter (\<lambda>i. i \<in> member_ids demo_guild) (map stat_id (take 3 [user_B, user_C, user_A]))"
    by blast
  moreover from t have "holders (fst (assign_top_contributor_roles [user_B, user_C, user_A] (demo_guild, []))) top_role_name =
     set (map stat_id (take 3 [user_B, user_C, user_A])) \<inter> member_ids demo_guild"
    by blast
  ultimately show ?thesis by (simp only: s r a h)
qed

text \<open>
  C6 as stated fails: alice (id 1) holds the role and stays in the new top 3, yet the
  role is removed from her (and added again), and it is added to her although the claim
  adds it only to the members that lack it.
\<close>

theorem assign_top_contributor_roles_counterexample:
  "set (removed_from top_role_name (snd (assign_top_contributor_roles [user_B, user_C, user_A] (demo_guild, [])))) \<noteq>
     holders demo_guild top_role_name - set (map stat_id (take 3 [user_B, user_C, user_A])) \<and>
   set (added_to top_role_name (snd (assign_top_contributor_roles [user_B, user_C, user_A] (demo_guild, [])))) \<noteq>
     (set (map stat_id (take 3 [user_B, user_C, user_A])) \<inter> member_ids demo_guild) -
       holders demo_guild top_role_name"
proof -
  have r: "removed_from top_role_name (snd (assign_top_contributor_roles [user_B, user_C, user_A] (demo_guild, []))) = [1]"
    unfolding assign_top_removed by (simp add: demo_guild_def top_role_name_def)
  have a: "added_to top_role_name (snd (assign_top_contributor_roles [user_B, user_C, user_A] (demo_guild, []))) = [2, 3, 1]"
    unfolding assign_top_added
    by (simp add: demo_guild_def member_ids_def stat_id_def user_A_def user_B_def user_C_def)
  have h: "holders demo_guild top_role_name = {1}"
    by (simp add: holders_def demo_guild_def top_role_name_def)
  have i: "set (map stat_id (take 3 [user_B, user_C, user_A])) = {2, 3, 1}"
    by (simp add: stat_id_def user_A_def user_B_def user_C_def)
  have m: "member_ids demo_guild = {1, 2, 3, 4, 5, 6}"
    by (simp add: member_ids_def demo_guild_def)
  have x: "({2, 3, 1} :: int set) \<noteq> {2, 3}"
  proof
    assume "({2, 3, 1} :: int set) = {2, 3}"
    then have "(1::int) \<in> {2, 3}" by blast
    then show False by simp
  qed
  show ?thesis unfolding r a h i m using x by auto
qed

lemma reconciled_member_ids:
  "map member_id (guild_members (reconciled us g)) = map member_id (guild_members g)"
  by (simp add: reconciled_def comp_def)

lemma has_role_reconciled_os:
  assumes "distinct (map stat_id us)" and "x \<in> set us" and "stat_id x \<in> member_ids g"
  shows "has_role (reconciled us g) (stat_id x) os_role_name \<longleftrightarrow> meets_criteria (snd (snd x))"
proof -
  from assms(3) obtain m where m: "get_member g (stat_id x) = Some m"
    using get_member_None [of g "stat_id x"] by (cases "get_member g (stat_id x)") auto
  have "os_role_name \<notin> top_roles top_role_name (take 3 us) (stat_id x) (member_roles m) - {os_role_name}"
    by simp
  then show ?thesis
    using top_os_distinct
    by (simp add: has_role_reconciled m os_roles_listed [OF assms(1) assms(2)])
qed

text \<open>
  C7. In a guild whose member ids are unique, for linked identities with unique ids, an
  identity that resolves to a present member holds the contributor role after
  reconciliation if and only if the \<open>total_stars\<close> of its record is at least 50 or its
  \<open>total_repos\<close> is at least 5, whatever the roles before and whatever the other
  identities' statistics; an identity with an error record does not hold it.
\<close>

theorem contributor_role_threshold:
  assumes "distinct (map member_id (guild_members g))"
    and "distinct (map stat_id us)"
    and "(i, name, st) \<in> set us"
    and "i \<in> member_ids g"
  shows "has_role (fst (reconcile_roles us (g, log))) i os_role_name \<longleftrightarrow>
           (case st of
              Stats r \<Rightarrow> total_stars r \<ge> 50 \<or> total_repos r \<ge> 5
            | StatsError u msg \<Rightarrow> False)"
proof -
  have "stat_id (i, name, st) \<in> member_ids g" using assms(4) by (simp add: stat_id_def)
  from has_role_reconciled_os [OF assms(2) assms(3) this]
  have "has_role (reconciled us g) i os_role_name \<longleftrightarrow> meets_criteria st"
    by (simp add: stat_id_def)
  moreover have "meets_criteria st \<longleftrightarrow>
           (case st of
              Stats r \<Rightarrow> total_stars r \<ge> 50 \<or> total_repos r \<ge> 5
            | StatsError u msg \<Rightarrow> False)"
    by (cases st) (simp_all add: meets_criteria_def)
  ultimately show ?thesis
    by (simp add: reconcile_roles_fst [OF assms(1)])
qed

text \<open>
  C8. Reconciliation is idempotent: in a guild whose member ids are unique, running both
  role updates a second time on the same statistics leaves the guild (its roles and every
  member's role set) exactly as the first run left it.
\<close>

theorem reconcile_roles_idempotent:
  assumes "distinct (map member_id (guild_members g))"
  shows "fst (reconcile_roles us (fst (reconcile_roles us (g, log)), log')) =
         fst (reconcile_roles us (g, log))"
proof -
  have first: "fst (reconcile_roles us (g, log)) = reconciled us g"
    using assms by (rule reconcile_roles_fst)
  have "distinct (map member_id (guild_members (reconciled us g)))"
    using assms by (simp only: reconciled_member_ids)
  then have "fst (reconcile_roles us (reconciled us g, log')) = reconciled us (reconciled us g)"
    by (rule reconcile_roles_fst)
  then show ?thesis by (simp add: first reconciled_idem)
qed

theorem reconcile_roles_idempotent_witness:
  "fst (reconcile_roles [user_B, user_C, user_A, user_D, user_E, user_ghost]
     (fst (reconcile_roles [user_B, user_C, user_A, user_D, user_E, user_ghost] (demo_guild, [])), [])) =
   fst (reconcile_roles [user_B, user_C, user_A, user_D, user_E, user_ghost] (demo_guild, [])) \<and>
   fst (reconcile_roles [user_B, user_C, user_A, user_D, user_E, user_ghost] (demo_guild, [])) \<noteq> demo_guild"
proof -
  have d: "distinct (map member_id (guild_members demo_guild))"
    by (simp add: demo_guild_def)
  have "has_role (fst (reconcile_roles [user_B, user_C, user_A, user_D, user_E, user_ghost] (demo_guild, [])))
          2 top_role_name"
    unfolding reconcile_roles_fst [OF d] has_role_reconciled
    by (simp add: os_roles_other top_os_distinct top_roles_def get_member_def demo_guild_def
        stat_id_def user_B_def)
  moreover have "\<not> has_role demo_guild 2 top_role_name"
    by (simp add: has_role_def get_member_def demo_guild_def)
  ultimately have "fst (reconcile_roles [user_B, user_C, user_A, user_D, user_E, user_ghost] (demo_guild, [])) \<noteq> demo_guild"
    by auto
  with reconcile_roles_idempotent [OF d, of "[user_B, user_C, user_A, user_D, user_E, user_ghost]" "[]" "[]"]
  show ?thesis by simp
qed

section \<open>Error records in ranking and reconciliation\<close>

lemma fetch_all_user_stats_keeps:
  "map (\<lambda>e. (fst e, fst (snd e))) (fst (fetch_all_user_stats api links acc w)) =
     map (\<lambda>e. (fst e, fst (snd e))) acc @ links"
proof (induction links arbitrary: acc w)
  case Nil
  show ?case by simp
next
  case (Cons l links)
  obtain discord_id github_username where l: "l = (discord_id, github_username)"
    by (cases l)
  obtain r w' where f: "fetch_user_stats api github_username None w = (Inr r, w')"
    using fetch_user_stats_returns [of api github_username None w]
    by (cases "fetch_user_stats api github_username None w") auto
  show ?case by (simp add: l f Cons.IH)
qed

lemma sorted_desc_positive_first:
  fixes f :: "'a \<Rightarrow> int"
  assumes "sorted_wrt (\<lambda>a b. f a \<ge> f b) xs" and "x \<in> set xs" and "y \<in> set xs"
    and "f x \<le> 0" and "f y > 0"
  shows "\<exists>i j. i < j \<and> j < length xs \<and> xs ! i = y \<and> xs ! j = x"
proof -
  from assms(2) obtain j where j: "j < length xs" "xs ! j = x" by (auto simp: in_set_conv_nth)
  from assms(3) obtain i where i: "i < length xs" "xs ! i = y" by (auto simp: in_set_conv_nth)
  have "i < j"
  proof (rule ccontr)
    assume "\<not> i < j"
    then consider "j = i" | "j < i" by linarith
    then show False
    proof cases
      case 1
      with i j assms(4) assms(5) show False by simp
    next
      case 2
      from sorted_wrt_nth_less [OF assms(1) 2 i(1)] i j assms(4) assms(5) show False by simp
    qed
  qed
  with i j show ?thesis by blast
qed

lemma sorted_desc_positive_count:
  fixes f :: "'a \<Rightarrow> int"
  assumes "sorted_wrt (\<lambda>a b. f a \<ge> f b) xs" and "j < length xs" and "f (xs ! j) \<le> 0"
  shows "length (filter (\<lambda>y. f y > 0) xs) \<le> j"
proof -
  have low: "f z \<le> 0" if "z \<in> set (drop j xs)" for z
  proof -
    from that obtain k where k: "k < length (drop j xs)" "drop j xs ! k = z"
      by (auto simp: in_set_conv_nth)
    then have z: "xs ! (j + k) = z" "j + k < length xs" by auto
    show ?thesis
    proof (cases k)
      case 0
      with z assms(3) show ?thesis by simp
    next
      case (Suc k')
      then have "j < j + k" by simp
      from sorted_wrt_nth_less [OF assms(1) this z(2)] z(1) assms(3) show ?thesis by simp
    qed
  qed
  have "filter (\<lambda>y. f y > 0) (drop j xs) = []"
    by (auto simp: filter_empty_conv dest: low)
  then have "filter (\<lambda>y. f y > 0) xs = filter (\<lambda>y. f y > 0) (take j xs)"
    using filter_append [of "\<lambda>y. f y > 0" "take j xs" "drop j xs"] by simp
  moreover have "length (filter (\<lambda>y. f y > 0) (take j xs)) \<le> length (take j xs)"
    by (rule length_filter_le)
  ultimately show ?thesis by simp
qed

lemma positive_count_sorted:
  "length (filter (\<lambda>y. stat_stars y > 0) (sort_by_total_stars us)) =
   length (filter (\<lambda>y. stat_stars y > 0) us)"
proof -
  have "mset (filter (\<lambda>y. stat_stars y > 0) (sort_by_total_stars us)) =
        mset (filter (\<lambda>y. stat_stars y > 0) us)"
    by (simp add: sort_by_total_stars_mset)
  then show ?thesis by (rule mset_eq_length)
qed

lemma in_top_three_by_id:
  assumes "distinct (map stat_id xs)" and "x \<in> set xs"
  shows "stat_id x \<in> set (map stat_id (take 3 xs)) \<longleftrightarrow> x \<in> set (take 3 xs)"
proof
  assume "stat_id x \<in> set (map stat_id (take 3 xs))"
  then obtain z where z: "z \<in> set (take 3 xs)" "stat_id z = stat_id x" by auto
  then have "z \<in> set xs" by (auto dest: in_set_takeD)
  moreover from assms(1) have "inj_on stat_id (set xs)" by (simp add: distinct_map)
  ultimately have "z = x" using z(2) assms(2) by (auto dest: inj_onD)
  with z(1) show "x \<in> set (take 3 xs)" by simp
next
  assume "x \<in> set (take 3 xs)"
  then show "stat_id x \<in> set (map stat_id (take 3 xs))" by simp
qed

lemma has_role_reconciled_top:
  "has_role (reconciled us g) i top_role_name \<longleftrightarrow>
     i \<in> member_ids g \<and> i \<in> set (map stat_id (take 3 us))"
proof (cases "get_member g i")
  case None
  then have "i \<notin> member_ids g" by (simp add: get_member_None)
  with None show ?thesis by (simp add: has_role_reconciled)
next
  case (Some m)
  then have "i \<in> member_ids g" using get_member_None [of g i] by auto
  with Some show ?thesis
    using top_os_distinct
    by (simp add: has_role_reconciled os_roles_other top_roles_def)
qed

text \<open>
  C10 (as amended). Every linked identity stays in the batch, also one whose statistics
  are an error record. An error record counts as 0 stars and 0 repositories, so in the
  ranked list it stands after every identity with positive stars. It is given the top
  role exactly when it resolves to a present member and is among the first three entries
  of the ranked list, which happens only when fewer than three identities have positive
  stars. It does not hold the contributor role after the reconciliation, whatever it held
  before. (Member ids and linked ids are unique.)
\<close>

theorem error_record_ranking_and_roles:
  assumes "distinct (map member_id (guild_members g))"
    and "distinct (map stat_id us)"
    and "x \<in> set us"
    and "snd (snd x) = StatsError u msg"
  shows "map (\<lambda>e. (fst e, fst (snd e))) (fst (fetch_all_user_stats api links [] w)) = links \<and>
         x \<in> set (sort_by_total_stars us) \<and> stat_stars x = 0 \<and> get_total_repos (snd (snd x)) = 0 \<and>
         (\<forall>y \<in> set us. stat_stars y > 0 \<longrightarrow>
            (\<exists>i j. i < j \<and> j < length us \<and>
               sort_by_total_stars us ! i = y \<and> sort_by_total_stars us ! j = x)) \<and>
         (has_role (fst (reconcile_roles (sort_by_total_stars us) (g, log))) (stat_id x) top_role_name \<longleftrightarrow>
            stat_id x \<in> member_ids g \<and> x \<in> set (take 3 (sort_by_total_stars us))) \<and>
         (x \<in> set (take 3 (sort_by_total_stars us)) \<longrightarrow>
            length (filter (\<lambda>y. stat_stars y > 0) us) < 3) \<and>
         \<not> has_role (fst (reconcile_roles (sort_by_total_stars us) (g, log))) (stat_id x) os_role_name"
proof -
  let ?ranked = "sort_by_total_stars us"
  have zero: "stat_stars x = 0" "get_total_repos (snd (snd x)) = 0"
    using assms(4) by (simp_all add: stat_stars_def)
  have xr: "x \<in> set ?ranked" using assms(3) by (simp add: sort_by_total_stars_set)
  have dr: "distinct (map stat_id ?ranked)"
    using assms(2) by (simp add: sort_by_total_stars_distinct_ids)
  have sorted: "sorted_wrt (\<lambda>a b. stat_stars a \<ge> stat_stars b) ?ranked"
    by (rule sort_by_total_stars_sorted)
  have before: "\<exists>i j. i < j \<and> j < length us \<and> ?ranked ! i = y \<and> ?ranked ! j = x"
    if "y \<in> set us" and "stat_stars y > 0" for y
  proof -
    from that(1) have "y \<in> set ?ranked" by (simp add: sort_by_total_stars_set)
    from sorted_desc_positive_first [OF sorted xr this] zero(1) that(2)
    show ?thesis by (simp add: sort_by_total_stars_length)
  qed
  have top: "has_role (fst (reconcile_roles ?ranked (g, log))) (stat_id x) top_role_name \<longleftrightarrow>
            stat_id x \<in> member_ids g \<and> x \<in> set (take 3 ?ranked)"
    by (simp only: reconcile_roles_fst [OF assms(1)] fst_conv has_role_reconciled_top
        in_top_three_by_id [OF dr xr])
  have few: "length (filter (\<lambda>y. stat_stars y > 0) us) < 3" if "x \<in> set (take 3 ?ranked)"
  proof -
    from that obtain j where j: "j < length (take 3 ?ranked)" "take 3 ?ranked ! j = x"
      by (auto simp: in_set_conv_nth)
    then have j3: "j < 3" "j < length ?ranked" "?ranked ! j = x" by auto
    from sorted_desc_positive_count [OF sorted j3(2)] j3(3) zero(1)
    have "length (filter (\<lambda>y. stat_stars y > 0) ?ranked) \<le> j" by simp
    with j3(1) show ?thesis by (simp add: positive_count_sorted)
  qed
  have os: "\<not> has_role (fst (reconcile_roles ?ranked (g, log))) (stat_id x) os_role_name"
  proof (cases "stat_id x \<in> member_ids g")
    case True
    from has_role_reconciled_os [OF dr xr True] assms(4)
    show ?thesis by (simp add: reconcile_roles_fst [OF assms(1)] meets_criteria_def)
  next
    case False
    then have "get_member g (stat_id x) = None" by (simp add: get_member_None)
    then show ?thesis
      by (simp add: reconcile_roles_fst [OF assms(1)] has_role_reconciled)
  qed
  have keep: "map (\<lambda>e. (fst e, fst (snd e))) (fst (fetch_all_user_stats api links [] w)) = links"
    by (simp add: fetch_all_user_stats_keeps)
  from keep xr zero before top few os show ?thesis by blast
qed

theorem error_record_ranking_and_roles_witness:
  "sort_by_total_stars [user_ghost, user_A, user_E] = [user_E, user_A, user_ghost] \<and>
   has_role (fst (reconcile_roles (sort_by_total_stars [user_ghost, user_A, user_E]) (demo_guild, [])))
     6 top_role_name \<and>
   has_role demo_guild 6 os_role_name \<and>
   \<not> has_role (fst (reconcile_roles (sort_by_total_stars [user_ghost, user_A, user_E]) (demo_guild, [])))
     6 os_role_name \<and>
   length (filter (\<lambda>y. stat_stars y > 0) [user_ghost, user_A, user_E]) < 3"
proof -
  have d1: "distinct (map member_id (guild_members demo_guild))"
    by (simp add: demo_guild_def)
  have d2: "distinct (map stat_id [user_ghost, user_A, user_E])"
    by (simp add: stat_id_def user_ghost_def user_A_def user_E_def)
  have x: "user_ghost \<in> set [user_ghost, user_A, user_E]" by simp
  have e: "snd (snd user_ghost) = StatsError ''ghost'' ''User not found''"
    by (simp add: user_ghost_def)
  have s: "sort_by_total_stars [user_ghost, user_A, user_E] = [user_E, user_A, user_ghost]"
    by (simp add: sort_by_total_stars_def stat_stars_def user_ghost_def user_A_def user_E_def
        demo_stats_def)
  have i: "stat_id user_ghost = 6" by (simp add: stat_id_def user_ghost_def)
  have m: "6 \<in> member_ids demo_guild" by (simp add: member_ids_def demo_guild_def)
  have t: "user_ghost \<in> set (take 3 [user_E, user_A, user_ghost])" by simp
  have b: "has_role demo_guild 6 os_role_name"
    by (simp add: has_role_def get_member_def demo_guild_def os_role_name_def)
  note main = error_record_ranking_and_roles [OF d1 d2 x e, where log = "[]"
      and api = "static_api (Inr None) (Inr None) two_found (Inr None)" and links = "[]"
      and w = "0::nat"]
  from main have "has_role (fst (reconcile_roles (sort_by_total_stars [user_ghost, user_A, user_E]) (demo_guild, [])))
       (stat_id user_ghost) top_role_name \<longleftrightarrow>
     stat_id user_ghost \<in> member_ids demo_guild \<and>
     user_ghost \<in> set (take 3 (sort_by_total_stars [user_ghost, user_A, user_E]))"
    by blast
  with s i m t have A: "has_role (fst (reconcile_roles (sort_by_total_stars [user_ghost, user_A, user_E]) (demo_guild, [])))
     6 top_role_name" by simp
  from main have "\<not> has_role (fst (reconcile_roles (sort_by_total_stars [user_ghost, user_A, user_E]) (demo_guild, [])))
       (stat_id user_ghost) os_role_name" by blast
  with i have B: "\<not> has_role (fst (reconcile_roles (sort_by_total_stars [user_ghost, user_A, user_E]) (demo_guild, [])))
     6 os_role_name" by simp
  from main have "user_ghost \<in> set (take 3 (sort_by_total_stars [user_ghost, user_A, user_E])) \<longrightarrow>
       length (filter (\<lambda>y. stat_stars y > 0) [user_ghost, user_A, user_E]) < 3" by blast
  with s t have C: "length (filter (\<lambda>y. stat_stars y > 0) [user_ghost, user_A, user_E]) < 3"
    by simp
  from s A b B C show ?thesis by simp
qed

text \<open>
  C10 as stated fails: with a single linked identity whose profile lookup yields no data,
  the error record is the whole ranked list, and the member it resolves to is given the
  top role.
\<close>

theorem error_record_top_role_counterexample:
  "fst (fetch_user_stats (static_api (Inr None) (Inr None) two_found (Inr None)) ''ghost'' None 0) =
     Inr (StatsError ''ghost'' ''User not found'') \<and>
   map_option (\<lambda>r. has_role (fst (fst r)) 6 top_role_name)
     (fst (update_github_roles (static_api (Inr None) (Inr None) two_found (Inr None))
            (Some lonely_guild) [(6, ''ghost'')] 0)) = Some True"
proof -
  have f: "fetch_user_stats (static_api (Inr None) (Inr None) two_found (Inr None)) ''ghost'' None 0 =
             (Inr (StatsError ''ghost'' ''User not found''), Suc 0)"
    by (simp add: fetch_user_stats_def fetch_user_stats_try_def fetch_user_info_def
        static_api_def Let_def)
  have d: "distinct (map member_id (guild_members lonely_guild))"
    by (simp add: lonely_guild_def)
  have s: "sort_by_total_stars [(6, ''ghost'', StatsError ''ghost'' ''User not found'')] =
             [(6, ''ghost'', StatsError ''ghost'' ''User not found'')]"
    by (simp add: sort_by_total_stars_def)
  have h: "has_role (reconciled [(6, ''ghost'', StatsError ''ghost'' ''User not found'')] lonely_guild)
             6 top_role_name"
    unfolding has_role_reconciled_top
    by (simp add: member_ids_def lonely_guild_def stat_id_def)
  show ?thesis
    by (simp add: f update_github_roles_def Let_def s reconcile_roles_fst [OF d] h)
qed

section \<open>The whole update: gather, rank, reconcile, post\<close>

lemma update_github_roles_eq:
  "update_github_roles api (Some g) links w =
     (Some (reconcile_roles (sort_by_total_stars (fst (fetch_all_user_stats api links [] w))) (g, []),
            post_daily_leaderboard
              (fst (reconcile_roles (sort_by_total_stars (fst (fetch_all_user_stats api links [] w))) (g, [])))
              (sort_by_total_stars (fst (fetch_all_user_stats api links [] w)))),
      snd (fetch_all_user_stats api links [] w))"
  by (simp add: update_github_roles_def Let_def split: prod.splits)




lemma fetch_user_stats_repos_api:
  "fetch_user_stats (repos_api table) name None w =
     (Inr (fetched_stats name (table name)), Suc (Suc (Suc (Suc w))))"
proof -
  have "star_count = (\<lambda>repo. case stargazers_count repo of None \<Rightarrow> 0 | Some n \<Rightarrow> n)"
    by (simp add: fun_eq_iff star_count_def)
  then show ?thesis
    by (simp add: fetch_user_stats_def fetch_user_stats_try_def fetch_user_info_def
        fetch_user_repos_def fetch_user_merged_prs_def fetch_user_issues_opened_def
        search_total_def repos_api_def fetched_stats_def Let_def)
qed

lemma fetch_all_user_stats_repos_api:
  "fst (fetch_all_user_stats (repos_api table) links acc w) =
     acc @ map (\<lambda>l. (fst l, snd l, fetched_stats (snd l) (table (snd l)))) links"
proof (induction links arbitrary: acc w)
  case Nil
  show ?case by simp
next
  case (Cons l links)
  obtain i name where l: "l = (i, name)" by (cases l)
  show ?case by (simp add: l fetch_user_stats_repos_api Cons.IH)
qed



theorem contributor_role_threshold_witness:
  "map_option
     (\<lambda>r. (has_role (fst (fst r)) 2 os_role_name, has_role (fst (fst r)) 4 os_role_name,
            has_role (fst (fst r)) 5 os_role_name))
     (fst (update_github_roles (repos_api demo_repos) (Some demo_guild)
            [(2, ''B''), (4, ''D''), (5, ''E'')] 0)) = Some (True, True, False) \<and>
   fetched_stats ''B'' (demo_repos ''B'') =
     Stats \<lparr>username = ''B'', user_info = [(''login'', ''B'')], total_stars = 50, total_repos = 1,
            merged_prs = 0, issues_opened = 0, repositories = demo_repos ''B'', updated_at = ''t''\<rparr> \<and>
   fetched_stats ''D'' (demo_repos ''D'') =
     Stats \<lparr>username = ''D'', user_info = [(''login'', ''D'')], total_stars = 0, total_repos = 5,
            merged_prs = 0, issues_opened = 0, repositories = demo_repos ''D'', updated_at = ''t''\<rparr> \<and>
   fetched_stats ''E'' (demo_repos ''E'') =
     Stats \<lparr>username = ''E'', user_info = [(''login'', ''E'')], total_stars = 49, total_repos = 4,
            merged_prs = 0, issues_opened = 0, repositories = demo_repos ''E'', updated_at = ''t''\<rparr> \<and>
   \<not> has_role demo_guild 2 os_role_name \<and> \<not> has_role demo_guild 4 os_role_name \<and>
   has_role demo_guild 5 os_role_name"
proof -
  let ?links = "[(2, ''B''), (4, ''D''), (5, ''E'')] :: (int \<times> string) list"
  let ?B = "(2, ''B'', fetched_stats ''B'' (demo_repos ''B'')) :: user_stat"
  let ?D = "(4, ''D'', fetched_stats ''D'' (demo_repos ''D'')) :: user_stat"
  let ?E = "(5, ''E'', fetched_stats ''E'' (demo_repos ''E'')) :: user_stat"
  have sB: "fetched_stats ''B'' (demo_repos ''B'') =
     Stats \<lparr>username = ''B'', user_info = [(''login'', ''B'')], total_stars = 50, total_repos = 1,
            merged_prs = 0, issues_opened = 0, repositories = demo_repos ''B'', updated_at = ''t''\<rparr>"
    by (simp add: fetched_stats_def demo_repos_def repo_with_def)
  have sD: "fetched_stats ''D'' (demo_repos ''D'') =
     Stats \<lparr>username = ''D'', user_info = [(''login'', ''D'')], total_stars = 0, total_repos = 5,
            merged_prs = 0, issues_opened = 0, repositories = demo_repos ''D'', updated_at = ''t''\<rparr>"
    by (simp add: fetched_stats_def demo_repos_def repo_with_def)
  have sE: "fetched_stats ''E'' (demo_repos ''E'') =
     Stats \<lparr>username = ''E'', user_info = [(''login'', ''E'')], total_stars = 49, total_repos = 4,
            merged_prs = 0, issues_opened = 0, repositories = demo_repos ''E'', updated_at = ''t''\<rparr>"
    by (simp add: fetched_stats_def demo_repos_def repo_with_def)
  have fetched: "fst (fetch_all_user_stats (repos_api demo_repos) ?links [] 0) = [?B, ?D, ?E]"
    unfolding fetch_all_user_stats_repos_api by simp
  have ranked: "sort_by_total_stars [?B, ?D, ?E] = [?B, ?E, ?D]"
    by (simp add: sort_by_total_stars_def stat_stars_def sB sD sE)
  have d1: "distinct (map member_id (guild_members demo_guild))"
    by (simp add: demo_guild_def)
  have d2: "distinct (map stat_id [?B, ?E, ?D])"
    by (simp add: stat_id_def)
  have mB: "?B \<in> set [?B, ?E, ?D]" and mD: "?D \<in> set [?B, ?E, ?D]" and mE: "?E \<in> set [?B, ?E, ?D]"
    by simp_all
  have i2: "2 \<in> member_ids demo_guild" and i4: "4 \<in> member_ids demo_guild"
    and i5: "5 \<in> member_ids demo_guild"
    by (simp_all add: member_ids_def demo_guild_def)
  have before: "\<not> has_role demo_guild 2 os_role_name \<and> \<not> has_role demo_guild 4 os_role_name \<and>
      has_role demo_guild 5 os_role_name"
    by (simp add: has_role_def get_member_def demo_guild_def os_role_name_def)
  from contributor_role_threshold [OF d1 d2 mB i2, of "[]"]
  have B: "has_role (fst (reconcile_roles [?B, ?E, ?D] (demo_guild, []))) 2 os_role_name"
    by (simp add: sB)
  from contributor_role_threshold [OF d1 d2 mD i4, of "[]"]
  have D: "has_role (fst (reconcile_roles [?B, ?E, ?D] (demo_guild, []))) 4 os_role_name"
    by (simp add: sD)
  from contributor_role_threshold [OF d1 d2 mE i5, of "[]"]
  have E: "\<not> has_role (fst (reconcile_roles [?B, ?E, ?D] (demo_guild, []))) 5 os_role_name"
    by (simp add: sE)
  have run: "map_option
     (\<lambda>r. (has_role (fst (fst r)) 2 os_role_name, has_role (fst (fst r)) 4 os_role_name,
            has_role (fst (fst r)) 5 os_role_name))
     (fst (update_github_roles (repos_api demo_repos) (Some demo_guild) ?links 0)) =
     Some (True, True, False)"
    unfolding update_github_roles_eq fetched ranked using B D E by simp
  from run sB sD sE before show ?thesis by blast
qed

end
